theory Spec2Isabelle
  imports Main "HOL-Library.AList"
begin

section \<open>JavaScript values\<close>

text \<open>
  The package handles values of type \<^verbatim>\<open>unknown\<close>: tool outputs, widget state, host
  context. They are modelled as trees: the contents of a value at the moment it is read.
  Where the code compares values by identity, the identity of an object is carried beside
  its contents (\<open>held\<close> below). Numbers are the integers (the conversions below only
  render them); an object is the list of its own enumerable properties in
  enumeration order, and properties inherited from \<^verbatim>\<open>Object.prototype\<close> and
  \<^verbatim>\<open>Array.prototype\<close> are left out (none of them is named \<^verbatim>\<open>content\<close> or
  \<^verbatim>\<open>text\<close>, the only names the code probes with \<^verbatim>\<open>in\<close>).
\<close>

datatype jsvalue =
    JUndefined
  | JNull
  | JBool bool
  | JNum int
  | JStr string
  | JArr "jsvalue list"
  | JObj "(string \<times> jsvalue) list"

fun js_typeof :: "jsvalue \<Rightarrow> string" where
  "js_typeof JUndefined = ''undefined''"
| "js_typeof JNull = ''object''"
| "js_typeof (JBool b) = ''boolean''"
| "js_typeof (JNum i) = ''number''"
| "js_typeof (JStr s) = ''string''"
| "js_typeof (JArr xs) = ''object''"
| "js_typeof (JObj fs) = ''object''"

fun truthy :: "jsvalue \<Rightarrow> bool" where
  "truthy JUndefined = False"
| "truthy JNull = False"
| "truthy (JBool b) = b"
| "truthy (JNum i) = (i \<noteq> 0)"
| "truthy (JStr s) = (s \<noteq> [])"
| "truthy (JArr xs) = True"
| "truthy (JObj fs) = True"

fun isArray :: "jsvalue \<Rightarrow> bool" where
  "isArray (JArr xs) = True"
| "isArray v = False"

definition digit_char :: "nat \<Rightarrow> char" where
  "digit_char n = ''0123456789abcdef'' ! n"

fun show_nat :: "nat \<Rightarrow> string" where
  "show_nat n =
     (if n < 10 then [digit_char n] else show_nat (n div 10) @ [digit_char (n mod 10)])"

declare show_nat.simps [simp del]

definition show_int :: "int \<Rightarrow> string" where
  "show_int i = (if i < 0 then CHR ''-'' # show_nat (nat (- i)) else show_nat (nat i))"

fun join :: "string \<Rightarrow> string list \<Rightarrow> string" where
  "join sep [] = []"
| "join sep [x] = x"
| "join sep (x # y # ys) = x @ sep @ join sep (y # ys)"

text \<open>Own enumerable properties, as object spread \<^verbatim>\<open>{...v}\<close> copies them.\<close>

fun own_props :: "jsvalue \<Rightarrow> (string \<times> jsvalue) list" where
  "own_props (JObj fs) = fs"
| "own_props (JArr xs) = zip (map show_nat [0 ..< length xs]) xs"
| "own_props (JStr s) = zip (map show_nat [0 ..< length s]) (map (\<lambda>c. JStr [c]) s)"
| "own_props v = []"

text \<open>\<^verbatim>\<open>k in v\<close> for an object or array \<open>v\<close> (the code applies it to nothing else).\<close>

fun js_in :: "string \<Rightarrow> jsvalue \<Rightarrow> bool" where
  "js_in k (JObj fs) = (k \<in> set (map fst fs))"
| "js_in k (JArr xs) = (k = ''length'' \<or> k \<in> set (map show_nat [0 ..< length xs]))"
| "js_in k v = False"

text \<open>
  Property read \<^verbatim>\<open>v.k\<close>: \<^verbatim>\<open>undefined\<close> for a missing property. On \<^verbatim>\<open>null\<close> and
  \<^verbatim>\<open>undefined\<close> the read throws in JavaScript; \<open>read_prop\<close> further down has that branch.
\<close>

fun get_prop :: "jsvalue \<Rightarrow> string \<Rightarrow> jsvalue" where
  "get_prop (JObj fs) k = (case map_of fs k of Some v \<Rightarrow> v | None \<Rightarrow> JUndefined)"
| "get_prop (JArr xs) k =
     (if k = ''length'' then JNum (int (length xs))
      else case map_of (own_props (JArr xs)) k of Some v \<Rightarrow> v | None \<Rightarrow> JUndefined)"
| "get_prop (JStr s) k =
     (if k = ''length'' then JNum (int (length s))
      else case map_of (own_props (JStr s)) k of Some v \<Rightarrow> v | None \<Rightarrow> JUndefined)"
| "get_prop v k = JUndefined"

text \<open>Optional chaining \<^verbatim>\<open>v?.k\<close>.\<close>

definition opt_chain :: "jsvalue \<Rightarrow> string \<Rightarrow> jsvalue" where
  "opt_chain v k = (if v = JUndefined \<or> v = JNull then JUndefined else get_prop v k)"

text \<open>Nullish coalescing \<^verbatim>\<open>v ?? d\<close> and logical or \<^verbatim>\<open>v || d\<close>.\<close>

definition nullish_or :: "jsvalue \<Rightarrow> jsvalue \<Rightarrow> jsvalue" where
  "nullish_or v d = (if v = JUndefined \<or> v = JNull then d else v)"

definition js_or :: "jsvalue \<Rightarrow> jsvalue \<Rightarrow> jsvalue" where
  "js_or v d = (if truthy v then v else d)"

text \<open>The values that are objects in the sense of the language: objects and arrays,
  not \<^verbatim>\<open>null\<close>.\<close>

fun is_object :: "jsvalue \<Rightarrow> bool" where
  "is_object (JObj fs) = True"
| "is_object (JArr xs) = True"
| "is_object v = False"

text \<open>
  A value as a variable or a state cell holds it: its contents as read, and for an object
  the identity of the object. \<open>Some n\<close> is the host's object number \<open>n\<close>; \<open>None\<close> marks
  what the hook wrote itself. The identity of a primitive means nothing.
\<close>

record held =
  contents :: jsvalue
  ident :: "nat option"

text \<open>
  \<^verbatim>\<open>Object.is\<close>, by which React compares an effect's dependencies with those of
  the previous render: equality on primitives, identity on objects and arrays. Two
  objects with equal contents are not the same, and one object stays the same when its
  contents change.
\<close>

definition object_is :: "held \<Rightarrow> held \<Rightarrow> bool" where
  "object_is a b =
     (if is_object (contents a) \<or> is_object (contents b)
      then is_object (contents a) \<and> is_object (contents b) \<and> ident a = ident b
      else contents a = contents b)"

text \<open>Object spread \<^verbatim>\<open>{...a, ...b}\<close>: the properties of \<open>a\<close>, then those of \<open>b\<close>
  assigned over them one by one.\<close>

definition spread2 :: "jsvalue \<Rightarrow> jsvalue \<Rightarrow> jsvalue" where
  "spread2 a b =
     JObj (fold (\<lambda>(k, v) acc. AList.update k v acc) (own_props b)
            (fold (\<lambda>(k, v) acc. AList.update k v acc) (own_props a) []))"

subsection \<open>\<^verbatim>\<open>String(v)\<close> and \<^verbatim>\<open>JSON.stringify(v)\<close>\<close>

fun js_String :: "jsvalue \<Rightarrow> string" where
  "js_String JUndefined = ''undefined''"
| "js_String JNull = ''null''"
| "js_String (JBool b) = (if b then ''true'' else ''false'')"
| "js_String (JNum i) = show_int i"
| "js_String (JStr s) = s"
| "js_String (JArr xs) =
     join '','' (map (\<lambda>x. if x = JUndefined \<or> x = JNull then [] else js_String x) xs)"
| "js_String (JObj fs) = ''[object Object]''"

definition QuoteJSONString_char :: "char \<Rightarrow> string" where
  "QuoteJSONString_char c =
     (if c = CHR 0x08 then [CHR 0x5C, CHR ''b'']
      else if c = CHR 0x09 then [CHR 0x5C, CHR ''t'']
      else if c = CHR 0x0A then [CHR 0x5C, CHR ''n'']
      else if c = CHR 0x0C then [CHR 0x5C, CHR ''f'']
      else if c = CHR 0x0D then [CHR 0x5C, CHR ''r'']
      else if c = CHR 0x22 then [CHR 0x5C, CHR 0x22]
      else if c = CHR 0x5C then [CHR 0x5C, CHR 0x5C]
      else if of_char c < (32::nat)
        then [CHR 0x5C, CHR ''u'', CHR ''0'', CHR ''0'',
              digit_char (of_char c div 16), digit_char (of_char c mod 16)]
      else [c])"

definition QuoteJSONString :: "string \<Rightarrow> string" where
  "QuoteJSONString s = CHR 0x22 # concat (map QuoteJSONString_char s) @ [CHR 0x22]"

text \<open>\<open>None\<close> is the result \<^verbatim>\<open>undefined\<close>: such a property is left out of an object
  and written \<^verbatim>\<open>null\<close> in an array.\<close>

fun JSON_stringify :: "jsvalue \<Rightarrow> string option" where
  "JSON_stringify JUndefined = None"
| "JSON_stringify JNull = Some ''null''"
| "JSON_stringify (JBool b) = Some (if b then ''true'' else ''false'')"
| "JSON_stringify (JNum i) = Some (show_int i)"
| "JSON_stringify (JStr s) = Some (QuoteJSONString s)"
| "JSON_stringify (JArr xs) =
     Some (''['' @ join '',''
        (map (\<lambda>x. case JSON_stringify x of None \<Rightarrow> ''null'' | Some s \<Rightarrow> s) xs) @ '']'')"
| "JSON_stringify (JObj fs) =
     Some (''{'' @ join '',''
        (concat (map (\<lambda>(k, v). case JSON_stringify v of None \<Rightarrow> []
                                | Some s \<Rightarrow> [QuoteJSONString k @ '':'' @ s]) fs)) @ ''}'')"

definition js_of_string_option :: "string option \<Rightarrow> jsvalue" where
  "js_of_string_option r = (case r of None \<Rightarrow> JUndefined | Some s \<Rightarrow> JStr s)"

section \<open>Calls, failures and the world\<close>

text \<open>
  A thrown value is an \<^verbatim>\<open>Error\<close> instance with its message, a \<^verbatim>\<open>TypeError\<close>
  raised by the runtime (also an \<^verbatim>\<open>Error\<close> instance), or any other value.
\<close>

datatype thrown = ErrorObj string | TypeError | NonError jsvalue

fun instanceof_Error :: "thrown \<Rightarrow> bool" where
  "instanceof_Error (ErrorObj m) = True"
| "instanceof_Error TypeError = True"
| "instanceof_Error (NonError v) = False"

text \<open>
  What a call gives its caller: a value, a synchronous throw, a promise that resolves, or
  a promise that rejects. Host methods and callbacks act on a world \<open>'w\<close> (whatever the
  host and the caller keep); a call takes the world and returns the new one.
\<close>

datatype 'a outcome = Returns 'a | Throws thrown | Resolves 'a | Rejects thrown

text \<open>\<^verbatim>\<open>await e\<close> inside \<^verbatim>\<open>try\<close>: the value, or the exception to catch.\<close>

fun await :: "'a outcome \<Rightarrow> thrown + 'a" where
  "await (Returns v) = Inr v"
| "await (Resolves v) = Inr v"
| "await (Throws e) = Inl e"
| "await (Rejects e) = Inl e"

text \<open>The promise an \<^verbatim>\<open>async\<close> function returns for the completion of its body.\<close>

fun async :: "thrown + 'a \<Rightarrow> 'a outcome" where
  "async (Inr v) = Resolves v"
| "async (Inl e) = Rejects e"

text \<open>A statement call \<^verbatim>\<open>f(x);\<close> in a plain function: only a synchronous throw leaves
  it; a promise it may return is dropped.\<close>

fun call_stmt :: "'a outcome \<Rightarrow> unit outcome" where
  "call_stmt (Throws e) = Throws e"
| "call_stmt r = Returns ()"

datatype platform = OpenAI | MCP | Unknown

record content_part =
  part_type :: string
  part_text :: "string option"

record unified_message =
  role :: string
  content :: "content_part list"

datatype logged = LogData string | LogError thrown

text \<open>\<^verbatim>\<open>window.openai\<close>: its data properties are read from the world at the moment
  of the read, \<open>prop_ident\<close> giving the identity of the object a property holds then; a
  method the host lacks is one that throws \<open>TypeError\<close>.\<close>

record 'w openai_global =
  props :: "'w \<Rightarrow> (string \<times> jsvalue) list"
  prop_ident :: "'w \<Rightarrow> string \<Rightarrow> nat"
  callTool :: "string \<Rightarrow> jsvalue \<Rightarrow> 'w \<Rightarrow> jsvalue outcome \<times> 'w"
  sendFollowUpMessage :: "string \<Rightarrow> 'w \<Rightarrow> unit outcome \<times> 'w"
  openExternal :: "string \<Rightarrow> 'w \<Rightarrow> unit outcome \<times> 'w"
  setOpenInAppUrl_oa :: "string \<Rightarrow> 'w \<Rightarrow> unit outcome \<times> 'w"
  requestDisplayMode_oa :: "string \<Rightarrow> 'w \<Rightarrow> unit outcome \<times> 'w"
  requestClose_oa :: "'w \<Rightarrow> unit outcome \<times> 'w"
  notifyIntrinsicHeight_oa :: "int \<Rightarrow> 'w \<Rightarrow> unit outcome \<times> 'w"
  uploadFile_oa :: "jsvalue \<Rightarrow> 'w \<Rightarrow> jsvalue outcome \<times> 'w"
  getFileDownloadUrl_oa :: "string \<Rightarrow> 'w \<Rightarrow> jsvalue outcome \<times> 'w"
  setWidgetState_oa :: "jsvalue \<Rightarrow> 'w \<Rightarrow> unit outcome \<times> 'w"
  updateWidgetState_oa :: "jsvalue \<Rightarrow> 'w \<Rightarrow> unit outcome \<times> 'w"
  share_oa :: "jsvalue \<Rightarrow> 'w \<Rightarrow> unit outcome \<times> 'w"
  streamCompletion_oa :: "jsvalue \<Rightarrow> 'w \<Rightarrow> jsvalue outcome \<times> 'w"
  callCompletion_oa :: "jsvalue \<Rightarrow> 'w \<Rightarrow> jsvalue outcome \<times> 'w"

record 'w window =
  openai :: "'w openai_global option"

text \<open>The ambient globals: \<open>window = None\<close> is \<^verbatim>\<open>typeof window === "undefined"\<close>.\<close>

record 'w globals =
  window :: "'w window option"
  console :: "string \<Rightarrow> string \<Rightarrow> logged \<Rightarrow> 'w \<Rightarrow> 'w"

text \<open>The client object of \<^verbatim>\<open>@modelcontextprotocol/ext-apps\<close> (not part of this
  repository): the methods the adapter and the hook call.\<close>

record 'w mcp_app =
  callServerTool_mcp :: "string \<Rightarrow> jsvalue \<Rightarrow> 'w \<Rightarrow> jsvalue outcome \<times> 'w"
  sendMessage_mcp :: "unified_message \<Rightarrow> jsvalue \<Rightarrow> 'w \<Rightarrow> jsvalue outcome \<times> 'w"
  sendLog_mcp :: "string \<Rightarrow> string \<Rightarrow> 'w \<Rightarrow> unit outcome \<times> 'w"
  openLink_mcp :: "string \<Rightarrow> 'w \<Rightarrow> jsvalue outcome \<times> 'w"
  getHostContext_mcp :: "'w \<Rightarrow> jsvalue"
  connect :: "'w \<Rightarrow> unit outcome \<times> 'w"

text \<open>\<open>UnifiedAppOptions\<close>. A callback acts on the world and may itself throw
  (\<open>Some e\<close>), which the adapter does not catch.\<close>

record 'w unified_app_options =
  appInfo_name :: string
  appInfo_version :: string
  capabilities :: jsvalue
  onToolInput :: "(jsvalue \<Rightarrow> 'w \<Rightarrow> thrown option \<times> 'w) option"
  onToolResult :: "(jsvalue \<Rightarrow> 'w \<Rightarrow> thrown option \<times> 'w) option"
  onHostContextChanged :: "(jsvalue \<Rightarrow> 'w \<Rightarrow> thrown option \<times> 'w) option"
  onTeardown :: "('w \<Rightarrow> thrown option \<times> 'w) option"
  onError :: "(thrown \<Rightarrow> 'w \<Rightarrow> thrown option \<times> 'w) option"

datatype 'w raw_app = RawOpenAI "'w openai_global" | RawMCP "'w mcp_app"

record 'w unified_app =
  platform :: platform
  callServerTool :: "string \<Rightarrow> jsvalue \<Rightarrow> 'w \<Rightarrow> jsvalue outcome \<times> 'w"
  sendMessage :: "unified_message \<Rightarrow> jsvalue \<Rightarrow> 'w \<Rightarrow> jsvalue outcome \<times> 'w"
  sendLog :: "string \<Rightarrow> string \<Rightarrow> 'w \<Rightarrow> unit outcome \<times> 'w"
  openLink :: "string \<Rightarrow> 'w \<Rightarrow> jsvalue outcome \<times> 'w"
  getHostContext :: "'w \<Rightarrow> jsvalue"
  getToolInput :: "'w \<Rightarrow> jsvalue"
  getToolOutput :: "'w \<Rightarrow> jsvalue"
  getToolResponseMetadata :: "'w \<Rightarrow> jsvalue"
  getWidgetState :: "'w \<Rightarrow> jsvalue"
  getWidgetProps :: "'w \<Rightarrow> jsvalue"
  setWidgetState :: "jsvalue \<Rightarrow> 'w \<Rightarrow> unit outcome \<times> 'w"
  updateWidgetState :: "jsvalue \<Rightarrow> 'w \<Rightarrow> unit outcome \<times> 'w"
  requestDisplayMode :: "string \<Rightarrow> 'w \<Rightarrow> unit outcome \<times> 'w"
  requestClose :: "'w \<Rightarrow> unit outcome \<times> 'w"
  notifyIntrinsicHeight :: "int \<Rightarrow> 'w \<Rightarrow> unit outcome \<times> 'w"
  uploadFile :: "jsvalue \<Rightarrow> 'w \<Rightarrow> jsvalue outcome \<times> 'w"
  getFileDownloadUrl :: "string \<Rightarrow> 'w \<Rightarrow> jsvalue outcome \<times> 'w"
  setOpenInAppUrl :: "string \<Rightarrow> 'w \<Rightarrow> unit outcome \<times> 'w"
  share :: "jsvalue \<Rightarrow> 'w \<Rightarrow> unit outcome \<times> 'w"
  callCompletion :: "jsvalue \<Rightarrow> 'w \<Rightarrow> jsvalue outcome \<times> 'w"
  streamCompletion :: "jsvalue \<Rightarrow> 'w \<Rightarrow> jsvalue outcome \<times> 'w"
  raw :: "'w raw_app"

section \<open>Platform detection\<close>

definition detectPlatform :: "'w globals \<Rightarrow> platform" where
  "detectPlatform g =
     (case window g of
        None \<Rightarrow> Unknown
      | Some win \<Rightarrow> (case openai win of None \<Rightarrow> Unknown | Some oa \<Rightarrow> OpenAI))"

definition isOpenAI :: "'w globals \<Rightarrow> bool" where
  "isOpenAI g = (detectPlatform g = OpenAI)"

definition isMCP :: "'w globals \<Rightarrow> bool" where
  "isMCP g = (detectPlatform g = MCP \<or> detectPlatform g = Unknown)"

section \<open>Tool-output conversion\<close>

definition text_result :: "jsvalue \<Rightarrow> jsvalue" where
  "text_result t = JObj [(''content'', JArr [JObj [(''type'', JStr ''text''), (''text'', t)]])]"

definition convertOpenAIToolOutput :: "jsvalue \<Rightarrow> jsvalue" where
  "convertOpenAIToolOutput output =
     (if js_typeof output = ''string'' then text_result output
      else if truthy output \<and> js_typeof output = ''object'' then
        (if js_in ''content'' output \<and> isArray (get_prop output ''content'') then output
         else if js_in ''text'' output
           then text_result (JStr (js_String (get_prop output ''text'')))
         else text_result (js_of_string_option (JSON_stringify output)))
      else text_result (JStr (js_String output)))"



section \<open>The first-host adapter\<close>

definition hostContextOf :: "'w openai_global \<Rightarrow> 'w \<Rightarrow> jsvalue" where
  "hostContextOf oa w =
     (let obj = JObj (props oa w) in
      JObj [(''theme'', get_prop obj ''theme''),
            (''displayMode'', get_prop obj ''displayMode''),
            (''locale'', get_prop obj ''locale''),
            (''safeAreaInsets'', opt_chain (get_prop obj ''safeArea'') ''insets''),
            (''maxWidth'', get_prop obj ''maxWidth''),
            (''maxHeight'', get_prop obj ''maxHeight'')])"

text \<open>\<^verbatim>\<open>if (options.onError) { options.onError(error); }\<close>: \<open>Some e'\<close> when the
  callback itself throws \<open>e'\<close>.\<close>

definition report_error :: "'w unified_app_options \<Rightarrow> thrown \<Rightarrow> 'w \<Rightarrow> thrown option \<times> 'w" where
  "report_error opts e w = (case onError opts of None \<Rightarrow> (None, w) | Some f \<Rightarrow> f e w)"

definition isError_result :: "bool \<Rightarrow> jsvalue" where
  "isError_result b = JObj [(''isError'', JBool b)]"

definition callServerTool_openai ::
  "'w unified_app_options \<Rightarrow> 'w openai_global \<Rightarrow> string \<Rightarrow> jsvalue \<Rightarrow> 'w \<Rightarrow> jsvalue outcome \<times> 'w" where
  "callServerTool_openai opts oa name args w =
     (case callTool oa name args w of
        (r, w1) \<Rightarrow>
          (case await r of
             Inr result \<Rightarrow> (Resolves (convertOpenAIToolOutput result), w1)
           | Inl e \<Rightarrow>
               (case report_error opts e w1 of
                  (None, w2) \<Rightarrow> (Rejects e, w2)
                | (Some e', w2) \<Rightarrow> (Rejects e', w2))))"

text \<open>\<^verbatim>\<open>message.content.find(c => c.type === "text")\<close> and the truthiness test of
  \<^verbatim>\<open>textContent?.text\<close>.\<close>

definition textContent :: "unified_message \<Rightarrow> string option" where
  "textContent message =
     (case find (\<lambda>c. part_type c = ''text'') (content message) of
        None \<Rightarrow> None
      | Some c \<Rightarrow> (case part_text c of None \<Rightarrow> None
                  | Some t \<Rightarrow> if t = [] then None else Some t))"

definition sendMessage_openai ::
  "'w unified_app_options \<Rightarrow> 'w openai_global \<Rightarrow> unified_message \<Rightarrow> jsvalue \<Rightarrow> 'w \<Rightarrow> jsvalue outcome \<times> 'w" where
  "sendMessage_openai opts oa message send_opts w =
     (case textContent message of
        None \<Rightarrow> (Resolves (isError_result False), w)
      | Some t \<Rightarrow>
          (case sendFollowUpMessage oa t w of
             (r, w1) \<Rightarrow>
               (case await r of
                  Inr u \<Rightarrow> (Resolves (isError_result False), w1)
                | Inl e \<Rightarrow>
                    (case report_error opts e w1 of
                       (None, w2) \<Rightarrow> (Resolves (isError_result True), w2)
                     | (Some e', w2) \<Rightarrow> (Rejects e', w2)))))"

definition sendLog_openai ::
  "'w unified_app_options \<Rightarrow> 'w globals \<Rightarrow> string \<Rightarrow> string \<Rightarrow> 'w \<Rightarrow> unit outcome \<times> 'w" where
  "sendLog_openai opts g level data w =
     (let consoleLevel = (if level = ''warning'' then ''warn'' else level) in
      (Resolves (), console g consoleLevel (''['' @ appInfo_name opts @ '']'') (LogData data) w))"

definition openLink_openai ::
  "'w unified_app_options \<Rightarrow> 'w openai_global \<Rightarrow> string \<Rightarrow> 'w \<Rightarrow> jsvalue outcome \<times> 'w" where
  "openLink_openai opts oa url w =
     (case openExternal oa url w of
        (r, w1) \<Rightarrow>
          (case await r of
             Inr u \<Rightarrow> (Resolves (isError_result False), w1)
           | Inl e \<Rightarrow>
               (case report_error opts e w1 of
                  (None, w2) \<Rightarrow> (Resolves (isError_result True), w2)
                | (Some e', w2) \<Rightarrow> (Rejects e', w2))))"

text \<open>The bodies without \<^verbatim>\<open>try\<close>: a plain function making one host call as a
  statement, an \<^verbatim>\<open>async\<close> function awaiting one host call for nothing, and an
  \<^verbatim>\<open>async\<close> function returning what the awaited host call gave.\<close>

definition forward_stmt :: "('w \<Rightarrow> 'a outcome \<times> 'w) \<Rightarrow> 'w \<Rightarrow> unit outcome \<times> 'w" where
  "forward_stmt call w = (case call w of (r, w1) \<Rightarrow> (call_stmt r, w1))"

definition forward_await_void :: "('w \<Rightarrow> 'a outcome \<times> 'w) \<Rightarrow> 'w \<Rightarrow> unit outcome \<times> 'w" where
  "forward_await_void call w =
     (case call w of (r, w1) \<Rightarrow> (async (map_sum id (\<lambda>v. ()) (await r)), w1))"

definition forward_await :: "('w \<Rightarrow> 'a outcome \<times> 'w) \<Rightarrow> 'w \<Rightarrow> 'a outcome \<times> 'w" where
  "forward_await call w = (case call w of (r, w1) \<Rightarrow> (async (await r), w1))"

definition openai_adapter ::
  "'w unified_app_options \<Rightarrow> 'w globals \<Rightarrow> 'w openai_global \<Rightarrow> 'w unified_app" where
  "openai_adapter opts g oa =
     \<lparr> platform = OpenAI,
       callServerTool = callServerTool_openai opts oa,
       sendMessage = sendMessage_openai opts oa,
       sendLog = sendLog_openai opts g,
       openLink = openLink_openai opts oa,
       getHostContext = hostContextOf oa,
       getToolInput = (\<lambda>w. js_or (get_prop (JObj (props oa w)) ''toolInput'') (JObj [])),
       getToolOutput = (\<lambda>w. get_prop (JObj (props oa w)) ''toolOutput''),
       getToolResponseMetadata =
         (\<lambda>w. js_or (get_prop (JObj (props oa w)) ''toolResponseMetadata'') (JObj [])),
       getWidgetState = (\<lambda>w. get_prop (JObj (props oa w)) ''widgetState''),
       getWidgetProps =
         (\<lambda>w. js_or (opt_chain (get_prop (JObj (props oa w)) ''widget'') ''props'') (JObj [])),
       setWidgetState = (\<lambda>state. forward_stmt (setWidgetState_oa oa state)),
       updateWidgetState = (\<lambda>state. forward_stmt (updateWidgetState_oa oa state)),
       requestDisplayMode = (\<lambda>mode. forward_await_void (requestDisplayMode_oa oa mode)),
       requestClose = forward_stmt (requestClose_oa oa),
       notifyIntrinsicHeight = (\<lambda>height. forward_stmt (notifyIntrinsicHeight_oa oa height)),
       uploadFile = (\<lambda>file. forward_await (uploadFile_oa oa file)),
       getFileDownloadUrl = (\<lambda>fileId. forward_await (getFileDownloadUrl_oa oa fileId)),
       setOpenInAppUrl = (\<lambda>href. forward_stmt (setOpenInAppUrl_oa oa href)),
       share = (\<lambda>params. forward_await_void (share_oa oa params)),
       callCompletion = (\<lambda>params. forward_await (callCompletion_oa oa params)),
       streamCompletion = (\<lambda>params. streamCompletion_oa oa params),
       raw = RawOpenAI oa \<rparr>"

text \<open>A callback that is called only when supplied.\<close>

definition call_if_supplied ::
  "('a \<Rightarrow> 'w \<Rightarrow> thrown option \<times> 'w) option \<Rightarrow> 'a \<Rightarrow> 'w \<Rightarrow> thrown option \<times> 'w" where
  "call_if_supplied cb x w = (case cb of None \<Rightarrow> (None, w) | Some f \<Rightarrow> f x w)"

text \<open>
  \<open>createOpenAIAdapter\<close>: the initial callbacks, then the adapter. \<open>oa\<close> is
  \<^verbatim>\<open>window.openai!\<close>; the event listener it registers is \<open>handleGlobalsChange\<close>.
\<close>

definition createOpenAIAdapter ::
  "'w unified_app_options \<Rightarrow> 'w globals \<Rightarrow> 'w openai_global \<Rightarrow> 'w \<Rightarrow> (thrown + 'w unified_app) \<times> 'w" where
  "createOpenAIAdapter opts g oa w =
     (case call_if_supplied (onHostContextChanged opts) (hostContextOf oa w) w of
        (Some e, w1) \<Rightarrow> (Inl e, w1)
      | (None, w1) \<Rightarrow>
          (case (if onToolResult opts \<noteq> None \<and> truthy (get_prop (JObj (props oa w1)) ''toolOutput'')
                 then call_if_supplied (onToolResult opts)
                        (convertOpenAIToolOutput (get_prop (JObj (props oa w1)) ''toolOutput'')) w1
                 else (None, w1)) of
             (Some e, w2) \<Rightarrow> (Inl e, w2)
           | (None, w2) \<Rightarrow>
               (case (if onToolInput opts \<noteq> None \<and> truthy (get_prop (JObj (props oa w2)) ''toolInput'')
                      then call_if_supplied (onToolInput opts)
                             (get_prop (JObj (props oa w2)) ''toolInput'') w2
                      else (None, w2)) of
                  (Some e, w3) \<Rightarrow> (Inl e, w3)
                | (None, w3) \<Rightarrow> (Inr (openai_adapter opts g oa), w3))))"

definition handleGlobalsChange ::
  "'w unified_app_options \<Rightarrow> 'w openai_global \<Rightarrow> 'w \<Rightarrow> thrown option \<times> 'w" where
  "handleGlobalsChange opts oa w = call_if_supplied (onHostContextChanged opts) (hostContextOf oa w) w"

section \<open>The second-host adapter\<close>

text \<open>A property read that throws on \<^verbatim>\<open>null\<close> and \<^verbatim>\<open>undefined\<close>.\<close>

definition read_prop :: "jsvalue \<Rightarrow> string \<Rightarrow> thrown + jsvalue" where
  "read_prop v k = (if v = JUndefined \<or> v = JNull then Inl TypeError else Inr (get_prop v k))"

definition isError_of :: "jsvalue outcome \<Rightarrow> jsvalue outcome" where
  "isError_of r =
     (case await r of
        Inl e \<Rightarrow> Rejects e
      | Inr result \<Rightarrow>
          (case read_prop result ''isError'' of
             Inl e \<Rightarrow> Rejects e
           | Inr v \<Rightarrow> Resolves (JObj [(''isError'', nullish_or v (JBool False))])))"

definition not_supported :: "string \<Rightarrow> thrown" where
  "not_supported name = ErrorObj (name @ '' is not supported on MCP platform'')"

definition createMCPAdapter :: "'w mcp_app \<Rightarrow> 'w unified_app_options \<Rightarrow> 'w unified_app" where
  "createMCPAdapter app opts =
     \<lparr> platform = MCP,
       callServerTool = (\<lambda>name args. forward_await (callServerTool_mcp app name args)),
       sendMessage = (\<lambda>message send_opts w.
          case sendMessage_mcp app message send_opts w of (r, w1) \<Rightarrow> (isError_of r, w1)),
       sendLog = (\<lambda>level data. forward_await_void (sendLog_mcp app level data)),
       openLink = (\<lambda>url w. case openLink_mcp app url w of (r, w1) \<Rightarrow> (isError_of r, w1)),
       getHostContext = (\<lambda>w. let ctx = getHostContext_mcp app w in
          JObj [(''theme'', opt_chain ctx ''theme''),
                (''displayMode'', opt_chain ctx ''displayMode''),
                (''locale'', opt_chain ctx ''locale''),
                (''safeAreaInsets'', opt_chain ctx ''safeAreaInsets'')]),
       getToolInput = (\<lambda>w. JObj []),
       getToolOutput = (\<lambda>w. JNull),
       getToolResponseMetadata = (\<lambda>w. JObj []),
       getWidgetState = (\<lambda>w. JNull),
       getWidgetProps = (\<lambda>w. JObj []),
       setWidgetState = (\<lambda>state w. (Returns (), w)),
       updateWidgetState = (\<lambda>state w. (Returns (), w)),
       requestDisplayMode = (\<lambda>mode w. (Resolves (), w)),
       requestClose = (\<lambda>w. (Returns (), w)),
       notifyIntrinsicHeight = (\<lambda>height w. (Returns (), w)),
       uploadFile = (\<lambda>file w. (Rejects (not_supported ''uploadFile''), w)),
       getFileDownloadUrl = (\<lambda>params w. (Rejects (not_supported ''getFileDownloadUrl''), w)),
       setOpenInAppUrl = (\<lambda>params w. (Returns (), w)),
       share = (\<lambda>params w. (Rejects (not_supported ''share''), w)),
       callCompletion = (\<lambda>params w. (Rejects (not_supported ''callCompletion''), w)),
       streamCompletion = (\<lambda>params w. (Throws (not_supported ''streamCompletion''), w)),
       raw = RawMCP app \<rparr>"

section \<open>The React hook \<open>useUnifiedApp\<close>\<close>

text \<open>
  The hook's state cells, and \<open>mounted\<close>, the flag its initialisation effect clears on
  unmount. A step of the hook takes the state the component rendered with and returns the
  state of the next render, after the effects whose dependencies changed have run.
\<close>

record 'w hook_state =
  platformRef :: platform
  unifiedApp :: "'w unified_app option"
  isConnected :: bool
  error :: "thrown option"
  hostContext :: jsvalue
  localWidgetState :: jsvalue
  openaiWidgetState :: held
  openaiWidgetProps :: held
  openaiToolOutput :: held
  openaiTheme :: held
  openaiDisplayMode :: held
  openaiLocale :: held
  mounted :: bool

text \<open>A value the hook wrote itself: the initial values of its cells.\<close>

definition own :: "jsvalue \<Rightarrow> held" where
  "own v = \<lparr> contents = v, ident = None \<rparr>"

definition first_render :: "'w globals \<Rightarrow> 'w hook_state" where
  "first_render g =
     \<lparr> platformRef = detectPlatform g,
       unifiedApp = None,
       isConnected = False,
       error = None,
       hostContext = JUndefined,
       localWidgetState = JNull,
       openaiWidgetState = own JNull,
       openaiWidgetProps = own (JObj []),
       openaiToolOutput = own JUndefined,
       openaiTheme = own (JStr ''light''),
       openaiDisplayMode = own (JStr ''inline''),
       openaiLocale = own (JStr ''en-US''),
       mounted = True \<rparr>"

text \<open>\<^verbatim>\<open>window.openai\<close> as a record of properties, \<^verbatim>\<open>undefined\<close> when absent.\<close>

definition window_openai :: "'w globals \<Rightarrow> 'w openai_global option" where
  "window_openai g = (case window g of None \<Rightarrow> None | Some win \<Rightarrow> openai win)"

text \<open>
  \<open>useOpenAIGlobal\<close>: what its effect and its \<open>handleChange\<close> listener leave in the
  cell. Both read \<^verbatim>\<open>window.openai[key]\<close> when the global exists and has the key.
\<close>

definition useOpenAIGlobal :: "'w globals \<Rightarrow> 'w \<Rightarrow> string \<Rightarrow> held \<Rightarrow> held" where
  "useOpenAIGlobal g w key value =
     (case window_openai g of
        None \<Rightarrow> value
      | Some oa \<Rightarrow>
          if js_in key (JObj (props oa w))
          then \<lparr> contents = get_prop (JObj (props oa w)) key,
                 ident = Some (prop_ident oa w key) \<rparr>
          else value)"

definition read_globals :: "'w globals \<Rightarrow> 'w \<Rightarrow> 'w hook_state \<Rightarrow> 'w hook_state" where
  "read_globals g w b =
     b\<lparr> openaiWidgetState := useOpenAIGlobal g w ''widgetState'' (openaiWidgetState b),
        openaiWidgetProps := useOpenAIGlobal g w ''widget'' (openaiWidgetProps b),
        openaiToolOutput := useOpenAIGlobal g w ''toolOutput'' (openaiToolOutput b),
        openaiTheme := useOpenAIGlobal g w ''theme'' (openaiTheme b),
        openaiDisplayMode := useOpenAIGlobal g w ''displayMode'' (openaiDisplayMode b),
        openaiLocale := useOpenAIGlobal g w ''locale'' (openaiLocale b) \<rparr>"

text \<open>
  The effect with dependencies \<^verbatim>\<open>[platform, openaiWidgetState]\<close>: it runs when one
  of them differs from the previous render (\<open>prev\<close>), and copies a non-null
  \<open>openaiWidgetState\<close> into the local state.
\<close>

definition sync_effect :: "'w hook_state \<Rightarrow> 'w hook_state \<Rightarrow> 'w hook_state" where
  "sync_effect prev cur =
     (if platformRef prev = platformRef cur
          \<and> object_is (openaiWidgetState prev) (openaiWidgetState cur) then cur
      else if platformRef cur = OpenAI \<and> contents (openaiWidgetState cur) \<noteq> JNull
        then cur\<lparr> localWidgetState := contents (openaiWidgetState cur) \<rparr>
      else cur)"

text \<open>The effect with dependencies
  \<^verbatim>\<open>[platform, isConnected, openaiTheme, openaiDisplayMode, openaiLocale]\<close>.\<close>

definition context_effect ::
  "'w globals \<Rightarrow> 'w \<Rightarrow> 'w hook_state \<Rightarrow> 'w hook_state \<Rightarrow> 'w hook_state" where
  "context_effect g w prev cur =
     (if platformRef prev = platformRef cur \<and> isConnected prev = isConnected cur
          \<and> object_is (openaiTheme prev) (openaiTheme cur)
          \<and> object_is (openaiDisplayMode prev) (openaiDisplayMode cur)
          \<and> object_is (openaiLocale prev) (openaiLocale cur) then cur
      else if platformRef cur = OpenAI \<and> isConnected cur then
        (let obj = (case window_openai g of None \<Rightarrow> JUndefined | Some oa \<Rightarrow> JObj (props oa w)) in
         cur\<lparr> hostContext :=
           JObj [(''theme'', contents (openaiTheme cur)),
                 (''displayMode'', contents (openaiDisplayMode cur)),
                 (''locale'', contents (openaiLocale cur)),
                 (''safeAreaInsets'', opt_chain (opt_chain obj ''safeArea'') ''insets''),
                 (''maxWidth'', opt_chain obj ''maxWidth''),
                 (''maxHeight'', opt_chain obj ''maxHeight'')] \<rparr>)
      else cur)"

text \<open>The widget-state setters the hook returns.\<close>

definition setWidgetState_hook ::
  "jsvalue \<Rightarrow> 'w hook_state \<Rightarrow> 'w \<Rightarrow> unit outcome \<times> 'w hook_state \<times> 'w" where
  "setWidgetState_hook state b w =
     (let b' = b\<lparr> localWidgetState := state \<rparr> in
      case unifiedApp b of
        None \<Rightarrow> (Returns (), b', w)
      | Some app \<Rightarrow>
          if platformRef b = OpenAI
          then (case setWidgetState app state w of (r, w1) \<Rightarrow> (call_stmt r, b', w1))
          else (Returns (), b', w))"

definition updateWidgetState_hook ::
  "jsvalue \<Rightarrow> 'w hook_state \<Rightarrow> 'w \<Rightarrow> unit outcome \<times> 'w hook_state \<times> 'w" where
  "updateWidgetState_hook state b w =
     (let b' = b\<lparr> localWidgetState := spread2 (localWidgetState b) state \<rparr> in
      case unifiedApp b of
        None \<Rightarrow> (Returns (), b', w)
      | Some app \<Rightarrow>
          if platformRef b = OpenAI
          then (case updateWidgetState app state w of (r, w1) \<Rightarrow> (call_stmt r, b', w1))
          else (Returns (), b', w))"

text \<open>
  The options the hook hands to \<open>createOpenAIAdapter\<close>: the caller's, with three
  callbacks wrapped. The wrapper of \<open>onHostContextChanged\<close> also sets the hook's
  \<open>hostContext\<close>; that write is made by the steps below, which own the hook state.
\<close>

definition log_prefix :: "'w unified_app_options \<Rightarrow> string" where
  "log_prefix opts = ''['' @ appInfo_name opts @ '']''"

definition hook_options ::
  "'w unified_app_options \<Rightarrow> 'w globals \<Rightarrow> bool \<Rightarrow> 'w unified_app_options" where
  "hook_options opts g is_mounted =
     opts\<lparr> onToolResult := Some (\<lambda>result. call_if_supplied (onToolResult opts) result),
           onHostContextChanged := Some (\<lambda>ctx w.
             if is_mounted then call_if_supplied (onHostContextChanged opts) ctx w else (None, w)),
           onError := Some (\<lambda>err w.
             call_if_supplied (onError opts) err (console g ''error'' (log_prefix opts) (LogError err) w)) \<rparr>"

text \<open>The \<^verbatim>\<open>catch\<close> block of the second-host branch of \<open>initialize\<close>.\<close>

definition connect_failed ::
  "'w unified_app_options \<Rightarrow> 'w globals \<Rightarrow> thrown \<Rightarrow> 'w hook_state \<Rightarrow> 'w \<Rightarrow> 'w hook_state \<times> 'w" where
  "connect_failed opts g err b w =
     (if mounted b
      then b\<lparr> error := Some (if instanceof_Error err then err else ErrorObj ''Failed to connect''),
              isConnected := False \<rparr>
      else b,
      console g ''error'' (log_prefix opts) (LogError err) w)"

text \<open>
  The awaits of the second-host branch of \<open>initialize\<close>, up to \<open>connect\<close>: the
  handshake. \<open>new_App\<close> stands for the dynamic import of the client library and the
  construction of the transport and the client, any of which may throw.
\<close>

definition handshake ::
  "('w \<Rightarrow> (thrown + 'w mcp_app) \<times> 'w) \<Rightarrow> 'w \<Rightarrow> (thrown + 'w mcp_app) \<times> 'w" where
  "handshake new_App w =
     (case new_App w of
        (Inl err, w1) \<Rightarrow> (Inl err, w1)
      | (Inr mcpApp, w1) \<Rightarrow>
          (case connect mcpApp w1 of
             (r, w2) \<Rightarrow> (case await r of Inl err \<Rightarrow> (Inl err, w2) | Inr u \<Rightarrow> (Inr mcpApp, w2))))"

text \<open>
  \<open>initialize\<close>. \<open>mounted b\<close> is the flag as the code after the awaited \<open>connect\<close>
  finds it.
\<close>

definition initialize ::
  "'w unified_app_options \<Rightarrow> 'w globals \<Rightarrow> ('w \<Rightarrow> (thrown + 'w mcp_app) \<times> 'w)
     \<Rightarrow> 'w hook_state \<Rightarrow> 'w \<Rightarrow> 'w hook_state \<times> 'w" where
  "initialize opts g new_App b w =
     (if platformRef b = OpenAI then
        (case window_openai g of
           None \<Rightarrow>
             (if mounted b then b\<lparr> error := Some TypeError, isConnected := False \<rparr> else b,
              console g ''error'' (log_prefix opts) (LogError TypeError) w)
         | Some oa \<Rightarrow>
             (let b1 = (if mounted b then b\<lparr> hostContext := hostContextOf oa w \<rparr> else b) in
              case createOpenAIAdapter (hook_options opts g (mounted b)) g oa w of
                (Inr adapter, w1) \<Rightarrow>
                  (if mounted b
                   then b1\<lparr> unifiedApp := Some adapter, isConnected := True,
                            hostContext := getHostContext adapter w1 \<rparr>
                   else b1, w1)
              | (Inl err, w1) \<Rightarrow>
                  (if mounted b then b1\<lparr> error := Some err, isConnected := False \<rparr> else b1,
                   console g ''error'' (log_prefix opts) (LogError err) w1)))
      else
        (case handshake new_App w of
           (Inl err, w1) \<Rightarrow> connect_failed opts g err b w1
         | (Inr mcpApp, w1) \<Rightarrow>
             (if mounted b then
                (let ctx = getHostContext_mcp mcpApp w1 in
                 b\<lparr> unifiedApp := Some (createMCPAdapter mcpApp opts),
                    isConnected := True,
                    hostContext :=
                      (if truthy ctx
                       then JObj [(''theme'', get_prop ctx ''theme''),
                                  (''displayMode'', get_prop ctx ''displayMode''),
                                  (''locale'', get_prop ctx ''locale''),
                                  (''safeAreaInsets'', get_prop ctx ''safeAreaInsets'')]
                       else hostContext b) \<rparr>)
              else b, w1)))"

text \<open>
  The handler the hook assigns to \<^verbatim>\<open>mcpApp.onhostcontextchanged\<close>. The caller's
  callback runs inside the state updater, before the updater returns the new context: when
  it throws, the updater throws, no new context is stored, and the throw is the first
  component of the result.
\<close>

definition onhostcontextchanged ::
  "'w unified_app_options \<Rightarrow> jsvalue \<Rightarrow> 'w hook_state \<Rightarrow> 'w
     \<Rightarrow> thrown option \<times> 'w hook_state \<times> 'w" where
  "onhostcontextchanged opts params b w =
     (if mounted b then
        (let newCtx = spread2 (hostContext b) params in
         case call_if_supplied (onHostContextChanged opts) newCtx w of
           (None, w1) \<Rightarrow> (None, b\<lparr> hostContext := newCtx \<rparr>, w1)
         | (Some e, w1) \<Rightarrow> (Some e, b, w1))
      else (None, b, w))"

text \<open>
  The event \<^verbatim>\<open>openai:set_globals\<close>. Its listeners exist while the component is
  mounted and if \<^verbatim>\<open>window.openai\<close> was there at mount, which is when \<open>platformRef\<close>
  is \<open>OpenAI\<close>: the six \<open>handleChange\<close> of \<open>useOpenAIGlobal\<close>, then the adapter's
  \<open>handleGlobalsChange\<close> with the hook's wrapper, which has set the host context
  before it calls the caller's callback, so that a throw of the callback changes nothing
  here; the effects follow the re-render.
\<close>

definition on_set_globals ::
  "'w unified_app_options \<Rightarrow> 'w globals \<Rightarrow> 'w hook_state \<Rightarrow> 'w \<Rightarrow> 'w hook_state \<times> 'w" where
  "on_set_globals opts g b w =
     (if mounted b \<and> platformRef b = OpenAI then
        (let b1 = read_globals g w b in
         case (case unifiedApp b of
                 None \<Rightarrow> (b1, w)
               | Some app \<Rightarrow>
                   (b1\<lparr> hostContext := getHostContext app w \<rparr>,
                    snd (call_if_supplied (onHostContextChanged opts) (getHostContext app w) w))) of
           (b2, w2) \<Rightarrow> (context_effect g w2 b (sync_effect b b2), w2))
      else (b, w))"

text \<open>Mounting: the first render, its effects, and the effects of the render after.\<close>

definition useUnifiedApp_mount ::
  "'w unified_app_options \<Rightarrow> 'w globals \<Rightarrow> ('w \<Rightarrow> (thrown + 'w mcp_app) \<times> 'w)
     \<Rightarrow> 'w \<Rightarrow> 'w hook_state \<times> 'w" where
  "useUnifiedApp_mount opts g new_App w =
     (case initialize opts g new_App (read_globals g w (first_render g)) w of
        (b2, w2) \<Rightarrow> (context_effect g w2 (first_render g) (sync_effect (first_render g) b2), w2))"

definition unmount :: "'w hook_state \<Rightarrow> 'w hook_state" where
  "unmount b = b\<lparr> mounted := False \<rparr>"

text \<open>The platform the hook returns.\<close>

definition finalPlatform :: "'w hook_state \<Rightarrow> platform" where
  "finalPlatform b =
     (if platformRef b = OpenAI then OpenAI else if isConnected b then MCP else Unknown)"

section \<open>Hosts and callers to run the model on\<close>

text \<open>
  Concrete environments in the manner of the repository's tests, which mock
  \<^verbatim>\<open>window.openai\<close>. Their world is the list of the errors handed to \<open>onError\<close>.
\<close>

definition silent_console :: "string \<Rightarrow> string \<Rightarrow> logged \<Rightarrow> 'w \<Rightarrow> 'w" where
  "silent_console level prefix payload w = w"

definition mock_props :: "jsvalue \<Rightarrow> (string \<times> jsvalue) list" where
  "mock_props ws =
     [(''toolOutput'', JNull), (''widgetState'', ws), (''widget'', JObj []),
      (''theme'', JStr ''light''), (''displayMode'', JStr ''inline''), (''locale'', JStr ''en-US'')]"

text \<open>A host with widget state \<open>ws\<close> whose every method succeeds and leaves the
  world alone.\<close>

definition quiet_openai :: "jsvalue \<Rightarrow> thrown list openai_global" where
  "quiet_openai ws =
     \<lparr> props = (\<lambda>w. mock_props ws),
       prop_ident = (\<lambda>w key. 0),
       callTool = (\<lambda>name args w. (Resolves (JObj [(''text'', JStr ''42'')]), w)),
       sendFollowUpMessage = (\<lambda>prompt w. (Resolves (), w)),
       openExternal = (\<lambda>href w. (Resolves (), w)),
       setOpenInAppUrl_oa = (\<lambda>href w. (Returns (), w)),
       requestDisplayMode_oa = (\<lambda>mode w. (Resolves (), w)),
       requestClose_oa = (\<lambda>w. (Returns (), w)),
       notifyIntrinsicHeight_oa = (\<lambda>height w. (Returns (), w)),
       uploadFile_oa = (\<lambda>file w. (Resolves (JObj [(''fileId'', JStr ''f1'')]), w)),
       getFileDownloadUrl_oa = (\<lambda>fileId w. (Resolves (JStr ''https://files/f1''), w)),
       setWidgetState_oa = (\<lambda>state w. (Returns (), w)),
       updateWidgetState_oa = (\<lambda>state w. (Returns (), w)),
       share_oa = (\<lambda>params w. (Resolves (), w)),
       streamCompletion_oa = (\<lambda>params w. (Returns (JArr []), w)),
       callCompletion_oa = (\<lambda>params w. (Resolves JNull, w)) \<rparr>"

text \<open>A host with widget state \<open>ws\<close> whose every method fails with \<open>e\<close>: the
  promise-returning ones reject, the others throw.\<close>

definition failing_openai :: "jsvalue \<Rightarrow> thrown \<Rightarrow> thrown list openai_global" where
  "failing_openai ws e =
     \<lparr> props = (\<lambda>w. mock_props ws),
       prop_ident = (\<lambda>w key. 0),
       callTool = (\<lambda>name args w. (Rejects e, w)),
       sendFollowUpMessage = (\<lambda>prompt w. (Rejects e, w)),
       openExternal = (\<lambda>href w. (Rejects e, w)),
       setOpenInAppUrl_oa = (\<lambda>href w. (Throws e, w)),
       requestDisplayMode_oa = (\<lambda>mode w. (Rejects e, w)),
       requestClose_oa = (\<lambda>w. (Throws e, w)),
       notifyIntrinsicHeight_oa = (\<lambda>height w. (Throws e, w)),
       uploadFile_oa = (\<lambda>file w. (Rejects e, w)),
       getFileDownloadUrl_oa = (\<lambda>fileId w. (Rejects e, w)),
       setWidgetState_oa = (\<lambda>state w. (Throws e, w)),
       updateWidgetState_oa = (\<lambda>state w. (Throws e, w)),
       share_oa = (\<lambda>params w. (Rejects e, w)),
       streamCompletion_oa = (\<lambda>params w. (Throws e, w)),
       callCompletion_oa = (\<lambda>params w. (Rejects e, w)) \<rparr>"

definition globals_with :: "'w openai_global \<Rightarrow> 'w globals" where
  "globals_with oa = \<lparr> window = Some \<lparr> openai = Some oa \<rparr>, console = silent_console \<rparr>"

definition globals_without :: "'w globals" where
  "globals_without = \<lparr> window = Some \<lparr> openai = None \<rparr>, console = silent_console \<rparr>"

text \<open>A caller that supplies only \<open>onError\<close>, which records the error it is given.\<close>

definition recording_opts :: "thrown list unified_app_options" where
  "recording_opts =
     \<lparr> appInfo_name = ''Test App'', appInfo_version = ''1.0.0'', capabilities = JUndefined,
       onToolInput = None, onToolResult = None, onHostContextChanged = None,
       onTeardown = None, onError = Some (\<lambda>e w. (None, w @ [e])) \<rparr>"

text \<open>A second-host client whose \<open>connect\<close> gives \<open>r\<close>.\<close>

definition mock_app :: "unit outcome \<Rightarrow> thrown list mcp_app" where
  "mock_app r =
     \<lparr> callServerTool_mcp = (\<lambda>name args w. (Resolves (JObj [(''content'', JArr [])]), w)),
       sendMessage_mcp = (\<lambda>message send_opts w. (Resolves (JObj []), w)),
       sendLog_mcp = (\<lambda>level data w. (Resolves (), w)),
       openLink_mcp = (\<lambda>url w. (Resolves (JObj []), w)),
       getHostContext_mcp = (\<lambda>w. JNull),
       connect = (\<lambda>w. (r, w)) \<rparr>"

text \<open>The hook mounted over a first host, and over no first host with the client
  \<open>app\<close>.\<close>

definition mounted_on :: "thrown list openai_global \<Rightarrow> thrown list hook_state" where
  "mounted_on oa =
     fst (useUnifiedApp_mount recording_opts (globals_with oa) (\<lambda>w. (Inl TypeError, w)) [])"

definition mounted_mcp :: "thrown list mcp_app \<Rightarrow> thrown list hook_state" where
  "mounted_mcp app =
     fst (useUnifiedApp_mount recording_opts globals_without (\<lambda>w. (Inr app, w)) [])"

definition text_message :: "string \<Rightarrow> unified_message" where
  "text_message t =
     \<lparr> role = ''user'', content = [\<lparr> part_type = ''text'', part_text = Some t \<rparr>] \<rparr>"

section \<open>Theorems\<close>

lemma is_object_iff: "is_object v \<longleftrightarrow> truthy v \<and> js_typeof v = ''object''"
  by (cases v) simp_all

lemma typeof_string_iff: "js_typeof v = ''string'' \<longleftrightarrow> (\<exists>s. v = JStr s)"
  by (cases v) simp_all

lemma JSON_stringify_object: "is_object v \<Longrightarrow> \<exists>s. JSON_stringify v = Some s"
  by (cases v) simp_all

lemma detectPlatform_cases: "detectPlatform g = OpenAI \<or> detectPlatform g = Unknown"
  by (simp add: detectPlatform_def split: option.splits)

lemma mount_without_global_handshake_failed:
  "isConnected (fst (useUnifiedApp_mount recording_opts globals_without
      (\<lambda>w. (Inl TypeError, w)) [])) = False"
  by (simp add: useUnifiedApp_mount_def initialize_def read_globals_def first_render_def
      detectPlatform_def globals_without_def handshake_def connect_failed_def useOpenAIGlobal_def
      window_openai_def sync_effect_def context_effect_def object_is_def own_def)

subsection \<open>Platform detection\<close>

text \<open>
  C7. \<open>detectPlatform\<close> answers \<open>OpenAI\<close> exactly when the global \<^verbatim>\<open>window.openai\<close>
  is present and \<open>Unknown\<close> in every other case; it never answers \<open>MCP\<close>. It is a function
  of the globals alone: it takes no world and returns none, so it has no effect, and it does
  not look at the console.
\<close>

theorem detectPlatform_openai_iff_global:
  "detectPlatform g =
     (if (\<exists>win oa. window g = Some win \<and> openai win = Some oa) then OpenAI else Unknown)
   \<and> detectPlatform g \<noteq> MCP
   \<and> detectPlatform (g\<lparr> console := c \<rparr>) = detectPlatform g"
  by (auto simp: detectPlatform_def split: option.splits)

text \<open>
  C10. \<open>isMCP\<close> is true exactly when \<open>detectPlatform\<close> does not answer \<open>OpenAI\<close>. It is
  therefore true with no \<^verbatim>\<open>window\<close> at all, and true in an environment where the
  hook's handshake fails and the hook is not connected: a true \<open>isMCP\<close> does not mean a
  working second-host connection.
\<close>

theorem isMCP_iff_not_openai:
  "(isMCP g \<longleftrightarrow> detectPlatform g \<noteq> OpenAI)
   \<and> isMCP (g\<lparr> window := None \<rparr>)
   \<and> isMCP (globals_without :: thrown list globals)
   \<and> \<not> isConnected (fst (useUnifiedApp_mount recording_opts globals_without
           (\<lambda>w. (Inl TypeError, w)) []))"
proof -
  have 1: "isMCP g \<longleftrightarrow> detectPlatform g \<noteq> OpenAI"
    using detectPlatform_cases [of g] by (auto simp: isMCP_def)
  have 2: "isMCP (g\<lparr> window := None \<rparr>)"
    by (simp add: isMCP_def detectPlatform_def)
  have 3: "isMCP (globals_without :: thrown list globals)"
    by (simp add: isMCP_def detectPlatform_def globals_without_def)
  show ?thesis using 1 2 3 mount_without_global_handshake_failed by simp
qed

subsection \<open>Tool-output conversion\<close>


subsection \<open>Running the hook on the mock hosts\<close>

lemma window_openai_fixtures [simp]:
  "window_openai (globals_with oa) = Some oa"
  "window_openai globals_without = None"
  by (simp_all add: window_openai_def globals_with_def globals_without_def)

lemma detectPlatform_fixtures [simp]:
  "detectPlatform (globals_with oa) = OpenAI"
  "detectPlatform globals_without = Unknown"
  by (simp_all add: detectPlatform_def globals_with_def globals_without_def)

lemma props_fixtures [simp]:
  "props (quiet_openai ws) w = mock_props ws"
  "props (failing_openai ws e) w = mock_props ws"
  "prop_ident (quiet_openai ws) w key = 0"
  "prop_ident (failing_openai ws e) w key = 0"
  by (simp_all add: quiet_openai_def failing_openai_def)

lemma failing_openai_setters [simp]:
  "setWidgetState_oa (failing_openai ws e) state w = (Throws e, w)"
  "updateWidgetState_oa (failing_openai ws e) state w = (Throws e, w)"
  by (simp_all add: failing_openai_def)

lemma recording_opts_fields [simp]:
  "onHostContextChanged recording_opts = None"
  "onToolResult recording_opts = None"
  "onToolInput recording_opts = None"
  by (simp_all add: recording_opts_def)

lemma first_render_fields [simp]:
  "platformRef (first_render g) = detectPlatform g"
  "mounted (first_render g)"
  "error (first_render g) = None"
  "\<not> isConnected (first_render g)"
  "unifiedApp (first_render g) = None"
  by (simp_all add: first_render_def)

lemma hook_options_callbacks:
  "onHostContextChanged (hook_options opts g m) =
     Some (\<lambda>ctx w. if m then call_if_supplied (onHostContextChanged opts) ctx w else (None, w))"
  "onToolResult (hook_options opts g m) =
     Some (\<lambda>result. call_if_supplied (onToolResult opts) result)"
  "onToolInput (hook_options opts g m) = onToolInput opts"
  by (simp_all add: hook_options_def)

lemma createOpenAIAdapter_no_callbacks:
  assumes "onHostContextChanged opts = None" "onToolResult opts = None" "onToolInput opts = None"
  shows "createOpenAIAdapter (hook_options opts g m) g' oa w
           = (Inr (openai_adapter (hook_options opts g m) g' oa), w)"
  by (simp add: createOpenAIAdapter_def hook_options_callbacks call_if_supplied_def assms)

lemma openai_adapter_fields:
  "getHostContext (openai_adapter opts g oa) = hostContextOf oa"
  "setWidgetState (openai_adapter opts g oa) = (\<lambda>state. forward_stmt (setWidgetState_oa oa state))"
  "updateWidgetState (openai_adapter opts g oa)
     = (\<lambda>state. forward_stmt (updateWidgetState_oa oa state))"
  by (simp_all add: openai_adapter_def)

lemma initialize_openai:
  assumes "platformRef b = OpenAI" "mounted b" "window_openai g = Some oa"
    and "onHostContextChanged opts = None" "onToolResult opts = None" "onToolInput opts = None"
  shows "initialize opts g new_App b w =
           (b\<lparr> unifiedApp := Some (openai_adapter (hook_options opts g True) g oa),
               isConnected := True, hostContext := hostContextOf oa w \<rparr>, w)"
  using assms
  by (simp add: initialize_def createOpenAIAdapter_no_callbacks openai_adapter_fields)

subsection \<open>What the effects and the steps keep\<close>

lemma effects_keep [simp]:
  "error (sync_effect prev cur) = error cur"
  "isConnected (sync_effect prev cur) = isConnected cur"
  "unifiedApp (sync_effect prev cur) = unifiedApp cur"
  "platformRef (sync_effect prev cur) = platformRef cur"
  "mounted (sync_effect prev cur) = mounted cur"
  "openaiWidgetState (sync_effect prev cur) = openaiWidgetState cur"
  "error (context_effect g w prev cur) = error cur"
  "isConnected (context_effect g w prev cur) = isConnected cur"
  "unifiedApp (context_effect g w prev cur) = unifiedApp cur"
  "platformRef (context_effect g w prev cur) = platformRef cur"
  "mounted (context_effect g w prev cur) = mounted cur"
  "openaiWidgetState (context_effect g w prev cur) = openaiWidgetState cur"
  "localWidgetState (context_effect g w prev cur) = localWidgetState cur"
  by (simp_all add: sync_effect_def context_effect_def Let_def)

lemma read_globals_keeps [simp]:
  "localWidgetState (read_globals g w b) = localWidgetState b"
  "platformRef (read_globals g w b) = platformRef b"
  "openaiWidgetState (read_globals g w b)
     = useOpenAIGlobal g w ''widgetState'' (openaiWidgetState b)"
  "error (read_globals g w b) = error b"
  "isConnected (read_globals g w b) = isConnected b"
  "unifiedApp (read_globals g w b) = unifiedApp b"
  "mounted (read_globals g w b) = mounted b"
  by (simp_all add: read_globals_def)

lemma sync_effect_local:
  "localWidgetState (sync_effect prev cur) =
     (if platformRef prev = platformRef cur
          \<and> object_is (openaiWidgetState prev) (openaiWidgetState cur) then localWidgetState cur
      else if platformRef cur = OpenAI \<and> contents (openaiWidgetState cur) \<noteq> JNull
        then contents (openaiWidgetState cur)
      else localWidgetState cur)"
  by (auto simp add: sync_effect_def)

lemma initialize_keeps [simp]:
  "platformRef (fst (initialize opts g new_App b w)) = platformRef b"
  "mounted (fst (initialize opts g new_App b w)) = mounted b"
  "localWidgetState (fst (initialize opts g new_App b w)) = localWidgetState b"
  "openaiWidgetState (fst (initialize opts g new_App b w)) = openaiWidgetState b"
  by (simp_all add: initialize_def connect_failed_def Let_def
      split: option.splits prod.splits sum.splits)

lemma setWidgetState_hook_state:
  "fst (snd (setWidgetState_hook state b w)) = b\<lparr> localWidgetState := state \<rparr>"
  by (simp add: setWidgetState_hook_def Let_def split: option.splits prod.splits)

lemma updateWidgetState_hook_state:
  "fst (snd (updateWidgetState_hook state b w))
     = b\<lparr> localWidgetState := spread2 (localWidgetState b) state \<rparr>"
  by (simp add: updateWidgetState_hook_def Let_def split: option.splits prod.splits)

lemma call_stmt_idem [simp]: "call_stmt (call_stmt r) = call_stmt r"
  by (cases r) simp_all

lemma setWidgetState_hook_forward:
  assumes "platformRef b = OpenAI" "unifiedApp b = Some (openai_adapter opts g oa)"
  shows "fst (setWidgetState_hook state b w) = call_stmt (fst (setWidgetState_oa oa state w))"
    and "snd (snd (setWidgetState_hook state b w)) = snd (setWidgetState_oa oa state w)"
    and "fst (updateWidgetState_hook state b w)
           = call_stmt (fst (updateWidgetState_oa oa state w))"
    and "snd (snd (updateWidgetState_hook state b w)) = snd (updateWidgetState_oa oa state w)"
  using assms
  by (simp_all add: setWidgetState_hook_def updateWidgetState_hook_def Let_def
      openai_adapter_fields forward_stmt_def split: prod.splits)

lemma setWidgetState_hook_local_only:
  assumes "platformRef b \<noteq> OpenAI \<or> unifiedApp b = None"
  shows "fst (setWidgetState_hook state b w) = Returns ()"
    and "snd (snd (setWidgetState_hook state b w)) = w"
    and "fst (updateWidgetState_hook state b w) = Returns ()"
    and "snd (snd (updateWidgetState_hook state b w)) = w"
  using assms
  by (auto simp add: setWidgetState_hook_def updateWidgetState_hook_def Let_def
      split: option.splits)

lemma on_set_globals_local:
  assumes "mounted b" and "platformRef b = OpenAI" and "window_openai g = Some oa"
    and "js_in ''widgetState'' (JObj (props oa w))"
  shows "localWidgetState (fst (on_set_globals opts g b w)) =
      (if get_prop (JObj (props oa w)) ''widgetState'' \<noteq> JNull
          \<and> \<not> object_is (openaiWidgetState b)
                \<lparr> contents = get_prop (JObj (props oa w)) ''widgetState'',
                  ident = Some (prop_ident oa w ''widgetState'') \<rparr>
       then get_prop (JObj (props oa w)) ''widgetState''
       else localWidgetState b)"
proof -
  have cell: "useOpenAIGlobal g w ''widgetState'' (openaiWidgetState b)
      = \<lparr> contents = get_prop (JObj (props oa w)) ''widgetState'',
          ident = Some (prop_ident oa w ''widgetState'') \<rparr>"
    using assms(3,4) by (simp add: useOpenAIGlobal_def)
  show ?thesis
  proof (cases "unifiedApp b")
    case None
    then show ?thesis
      using assms(1,2) by (simp add: on_set_globals_def Let_def sync_effect_local cell)
  next
    case (Some app)
    then show ?thesis
      using assms(1,2) by (simp add: on_set_globals_def Let_def sync_effect_local cell)
  qed
qed

lemma initialize_handshake_failed:
  assumes "platformRef b \<noteq> OpenAI" "mounted b" "handshake new_App w = (Inl e, w1)"
  shows "initialize opts g new_App b w =
           (b\<lparr> error := Some (if instanceof_Error e then e else ErrorObj ''Failed to connect''),
               isConnected := False \<rparr>,
            console g ''error'' (log_prefix opts) (LogError e) w1)"
  using assms by (simp add: initialize_def connect_failed_def)

lemma initialize_handshake_ok:
  assumes "platformRef b \<noteq> OpenAI" "mounted b" "handshake new_App w = (Inr app, w1)"
  shows "isConnected (fst (initialize opts g new_App b w))"
  using assms by (simp add: initialize_def Let_def)

lemma mount_unfold:
  "useUnifiedApp_mount opts g new_App w =
     (context_effect g (snd (initialize opts g new_App (read_globals g w (first_render g)) w))
        (first_render g)
        (sync_effect (first_render g)
           (fst (initialize opts g new_App (read_globals g w (first_render g)) w))),
      snd (initialize opts g new_App (read_globals g w (first_render g)) w))"
  by (simp add: useUnifiedApp_mount_def split: prod.splits)

lemma mount_handshake_failed:
  assumes "detectPlatform g \<noteq> OpenAI" and "handshake new_App w = (Inl e, w1)"
  shows "error (fst (useUnifiedApp_mount opts g new_App w))
          = Some (if instanceof_Error e then e else ErrorObj ''Failed to connect'')"
    and "\<not> isConnected (fst (useUnifiedApp_mount opts g new_App w))"
    and "unifiedApp (fst (useUnifiedApp_mount opts g new_App w)) = None"
    and "finalPlatform (fst (useUnifiedApp_mount opts g new_App w)) = Unknown"
    and "snd (useUnifiedApp_mount opts g new_App w)
          = console g ''error'' (log_prefix opts) (LogError e) w1"
  using assms
  by (simp_all add: mount_unfold finalPlatform_def
      initialize_handshake_failed [where e = e and ?w1.0 = w1])

subsection \<open>The hook mounted on the mock hosts\<close>

lemma object_is_own_null:
  "object_is (own JNull) \<lparr> contents = v, ident = i \<rparr> \<longleftrightarrow> v = JNull"
  by (cases v) (auto simp add: object_is_def own_def)

lemma first_render_cells [simp]:
  "openaiWidgetState (first_render g) = own JNull"
  "localWidgetState (first_render g) = JNull"
  by (simp_all add: first_render_def)

lemma useOpenAIGlobal_widgetState_mock:
  assumes "props oa w = mock_props ws"
  shows "useOpenAIGlobal (globals_with oa) w ''widgetState'' v
           = \<lparr> contents = ws, ident = Some (prop_ident oa w ''widgetState'') \<rparr>"
  using assms by (simp add: useOpenAIGlobal_def mock_props_def)

lemma mounted_on_fields:
  assumes "\<And>w. props oa w = mock_props ws"
  shows "mounted (mounted_on oa)"
    and "platformRef (mounted_on oa) = OpenAI"
    and "openaiWidgetState (mounted_on oa)
           = \<lparr> contents = ws, ident = Some (prop_ident oa [] ''widgetState'') \<rparr>"
    and "localWidgetState (mounted_on oa) = ws"
    and "unifiedApp (mounted_on oa)
           = Some (openai_adapter (hook_options recording_opts (globals_with oa) True)
                     (globals_with oa) oa)"
proof -
  show "mounted (mounted_on oa)" "platformRef (mounted_on oa) = OpenAI"
    by (simp_all add: mounted_on_def mount_unfold)
  show "openaiWidgetState (mounted_on oa)
           = \<lparr> contents = ws, ident = Some (prop_ident oa [] ''widgetState'') \<rparr>"
    by (simp add: mounted_on_def mount_unfold useOpenAIGlobal_widgetState_mock [OF assms])
  show "localWidgetState (mounted_on oa) = ws"
    by (simp add: mounted_on_def mount_unfold sync_effect_local
        useOpenAIGlobal_widgetState_mock [OF assms] object_is_own_null)
  have "initialize recording_opts (globals_with oa) (\<lambda>w. (Inl TypeError, w))
          (read_globals (globals_with oa) [] (first_render (globals_with oa))) []
      = ((read_globals (globals_with oa) [] (first_render (globals_with oa)))
           \<lparr> unifiedApp := Some (openai_adapter
                  (hook_options recording_opts (globals_with oa) True) (globals_with oa) oa),
               isConnected := True, hostContext := hostContextOf oa [] \<rparr>, [])"
    by (rule initialize_openai) simp_all
  then show "unifiedApp (mounted_on oa)
           = Some (openai_adapter (hook_options recording_opts (globals_with oa) True)
                     (globals_with oa) oa)"
    by (simp add: mounted_on_def mount_unfold)
qed

lemma mounted_on_quiet_fields:
  "mounted (mounted_on (quiet_openai ws))"
  "platformRef (mounted_on (quiet_openai ws)) = OpenAI"
  "openaiWidgetState (mounted_on (quiet_openai ws)) = \<lparr> contents = ws, ident = Some 0 \<rparr>"
  "localWidgetState (mounted_on (quiet_openai ws)) = ws"
  using mounted_on_fields [of "quiet_openai ws" ws] by simp_all

lemma mounted_on_failing_fields:
  "platformRef (mounted_on (failing_openai ws e)) = OpenAI"
  "unifiedApp (mounted_on (failing_openai ws e)) =
     Some (openai_adapter (hook_options recording_opts (globals_with (failing_openai ws e)) True)
             (globals_with (failing_openai ws e)) (failing_openai ws e))"
  "localWidgetState (mounted_on (failing_openai ws e)) = ws"
  using mounted_on_fields [of "failing_openai ws e" ws] by simp_all

lemma mounted_mcp_fields:
  "platformRef (mounted_mcp (mock_app (Resolves ()))) = Unknown"
  "isConnected (mounted_mcp (mock_app (Resolves ())))"
  "mounted (mounted_mcp (mock_app (Resolves ())))"
  "hostContext (mounted_mcp (mock_app (Resolves ()))) = JUndefined"
  by (simp_all add: mounted_mcp_def useUnifiedApp_mount_def initialize_def handshake_def
      mock_app_def read_globals_def useOpenAIGlobal_def sync_effect_def context_effect_def
      object_is_def first_render_def own_def)

lemma handshake_mock:
  "handshake (\<lambda>w. (Inr (mock_app r), w)) w = (map_sum id (\<lambda>u. mock_app r) (await r), w)"
  by (cases r) (simp_all add: handshake_def mock_app_def)

subsection \<open>Object spread\<close>

lemma map_of_fold_update:
  "map_of (fold (\<lambda>(k, v) acc. AList.update k v acc) xs acc) = map_of acc ++ map_of (rev xs)"
proof (induction xs arbitrary: acc)
  case Nil
  then show ?case by simp
next
  case (Cons x xs)
  obtain k v where x: "x = (k, v)" by (cases x)
  show ?case
    by (simp add: x Cons.IH update_conv' map_add_upd_left fun_eq_iff map_add_def
        split: option.splits)
qed

lemma distinct_fold_update:
  "distinct (map fst acc) \<Longrightarrow>
   distinct (map fst (fold (\<lambda>(k, v) acc. AList.update k v acc) xs acc))"
proof (induction xs arbitrary: acc)
  case Nil
  then show ?case by simp
next
  case (Cons x xs)
  obtain k v where x: "x = (k, v)" by (cases x)
  show ?case using Cons.prems by (simp add: x Cons.IH distinct_update)
qed

lemma map_of_rev_distinct: "distinct (map fst xs) \<Longrightarrow> map_of (rev xs) = map_of xs"
  by (subst map_of_inject_set) (simp_all add: rev_map [symmetric])

lemma keys_fold_update:
  "fst ` set (fold (\<lambda>(k, v) acc. AList.update k v acc) xs acc) = fst ` set acc \<union> fst ` set xs"
proof -
  have "dom (map_of (fold (\<lambda>(k, v) acc. AList.update k v acc) xs acc))
      = dom (map_of acc ++ map_of (rev xs))"
    by (simp only: map_of_fold_update)
  then show ?thesis
    by (simp add: dom_map_of_conv_image_fst Un_commute)
qed

lemma spread2_own_props:
  assumes "distinct (map fst (own_props a))" "distinct (map fst (own_props b))"
  shows "\<exists>fs. spread2 a b = JObj fs
            \<and> map_of fs = map_of (own_props a) ++ map_of (own_props b)
            \<and> distinct (map fst fs)
            \<and> set (map fst fs) = set (map fst (own_props a)) \<union> set (map fst (own_props b))"
  using assms
  by (simp add: spread2_def map_of_fold_update distinct_fold_update keys_fold_update
      map_of_rev_distinct)

subsection \<open>Failures of the first host's methods\<close>

lemma callServerTool_openai_failure:
  assumes "await (fst (callTool oa name args w)) = Inl e"
    and "fst (report_error opts e (snd (callTool oa name args w))) = None"
  shows "callServerTool (openai_adapter opts g oa) name args w
           = (Rejects e, snd (report_error opts e (snd (callTool oa name args w))))"
  using assms
  by (simp add: openai_adapter_def callServerTool_openai_def case_prod_beta)

lemma sendMessage_openai_failure:
  assumes "textContent message = Some t"
    and "await (fst (sendFollowUpMessage oa t w)) = Inl e"
    and "fst (report_error opts e (snd (sendFollowUpMessage oa t w))) = None"
  shows "sendMessage (openai_adapter opts g oa) message send_opts w
           = (Resolves (isError_result True),
              snd (report_error opts e (snd (sendFollowUpMessage oa t w))))"
  using assms
  by (simp add: openai_adapter_def sendMessage_openai_def case_prod_beta)

lemma openLink_openai_failure:
  assumes "await (fst (openExternal oa url w)) = Inl e"
    and "fst (report_error opts e (snd (openExternal oa url w))) = None"
  shows "openLink (openai_adapter opts g oa) url w
           = (Resolves (isError_result True),
              snd (report_error opts e (snd (openExternal oa url w))))"
  using assms
  by (simp add: openai_adapter_def openLink_openai_def case_prod_beta)

lemma forward_await_failure:
  "await (fst (call w)) = Inl e \<Longrightarrow> forward_await call w = (Rejects e, snd (call w))"
  by (simp add: forward_await_def case_prod_beta)

lemma forward_await_void_failure:
  "await (fst (call w)) = Inl e \<Longrightarrow> forward_await_void call w = (Rejects e, snd (call w))"
  by (simp add: forward_await_void_def case_prod_beta)

lemma forward_stmt_result:
  "forward_stmt call w = (call_stmt (fst (call w)), snd (call w))"
  by (simp add: forward_stmt_def case_prod_beta)

lemma openai_adapter_passthrough:
  "uploadFile (openai_adapter opts g oa) = (\<lambda>file. forward_await (uploadFile_oa oa file))"
  "getFileDownloadUrl (openai_adapter opts g oa)
     = (\<lambda>fileId. forward_await (getFileDownloadUrl_oa oa fileId))"
  "callCompletion (openai_adapter opts g oa)
     = (\<lambda>params. forward_await (callCompletion_oa oa params))"
  "share (openai_adapter opts g oa) = (\<lambda>params. forward_await_void (share_oa oa params))"
  "requestDisplayMode (openai_adapter opts g oa)
     = (\<lambda>mode. forward_await_void (requestDisplayMode_oa oa mode))"
  "streamCompletion (openai_adapter opts g oa) = streamCompletion_oa oa"
  "requestClose (openai_adapter opts g oa) = forward_stmt (requestClose_oa oa)"
  "notifyIntrinsicHeight (openai_adapter opts g oa)
     = (\<lambda>height. forward_stmt (notifyIntrinsicHeight_oa oa height))"
  "setOpenInAppUrl (openai_adapter opts g oa)
     = (\<lambda>href. forward_stmt (setOpenInAppUrl_oa oa href))"
  by (simp_all add: openai_adapter_def)

subsection \<open>The second-host adapter\<close>

text \<open>
  C4. On the second-host adapter, \<open>uploadFile\<close>, \<open>getFileDownloadUrl\<close>, \<open>share\<close> and
  \<open>callCompletion\<close> reject, and \<open>streamCompletion\<close> throws, each with its fixed "not
  supported" message, for every client, every option record, every argument and every
  world; the world comes back as it went in, so no method of the client was called and no
  state changed.
\<close>

theorem mcp_exclusive_operations_not_supported:
  "uploadFile (createMCPAdapter app opts) file w
     = (Rejects (ErrorObj ''uploadFile is not supported on MCP platform''), w)
   \<and> getFileDownloadUrl (createMCPAdapter app opts) fileId w
     = (Rejects (ErrorObj ''getFileDownloadUrl is not supported on MCP platform''), w)
   \<and> share (createMCPAdapter app opts) params w
     = (Rejects (ErrorObj ''share is not supported on MCP platform''), w)
   \<and> callCompletion (createMCPAdapter app opts) params w
     = (Rejects (ErrorObj ''callCompletion is not supported on MCP platform''), w)
   \<and> streamCompletion (createMCPAdapter app opts) params w
     = (Throws (ErrorObj ''streamCompletion is not supported on MCP platform''), w)"
  by (simp add: createMCPAdapter_def not_supported_def)

subsection \<open>The first-host adapter\<close>

text \<open>
  C1, as the code has it. Only \<open>callServerTool\<close>, \<open>sendMessage\<close> and \<open>openLink\<close> catch
  a failure of the host method. \<open>callServerTool\<close> hands the error to \<open>onError\<close>, when one
  was supplied, and then rejects with the same error. \<open>sendMessage\<close>, when the message has
  a text part with a non-empty text (the only case in which it calls the host), and
  \<open>openLink\<close> hand the error to \<open>onError\<close>, when one was supplied, and resolve with
  \<^verbatim>\<open>{isError: true}\<close>. In these three the callback is taken to return normally. No
  other operation calls \<open>onError\<close>: the world it returns is the one the host call returned.
  The \<^verbatim>\<open>async\<close> ones (\<open>uploadFile\<close>, \<open>getFileDownloadUrl\<close>, \<open>callCompletion\<close>,
  \<open>share\<close>, \<open>requestDisplayMode\<close>) turn a throw or a rejection of the host method into
  a rejection for their caller. The plain ones (\<open>setWidgetState\<close>, \<open>updateWidgetState\<close>,
  \<open>requestClose\<close>, \<open>notifyIntrinsicHeight\<close>, \<open>setOpenInAppUrl\<close>) pass a synchronous throw
  of the host method to their caller and drop whatever it returns, so that a rejected
  promise reaches nobody. \<open>streamCompletion\<close> gives its caller what the host method gave.
\<close>

theorem openai_adapter_host_failure:
  "report_error opts e w = (case onError opts of None \<Rightarrow> (None, w) | Some f \<Rightarrow> f e w)
   \<and> (await (fst (callTool oa name args w)) = Inl e
        \<and> fst (report_error opts e (snd (callTool oa name args w))) = None \<longrightarrow>
      callServerTool (openai_adapter opts g oa) name args w
        = (Rejects e, snd (report_error opts e (snd (callTool oa name args w)))))
   \<and> (textContent message = Some t
        \<and> await (fst (sendFollowUpMessage oa t w)) = Inl e
        \<and> fst (report_error opts e (snd (sendFollowUpMessage oa t w))) = None \<longrightarrow>
      sendMessage (openai_adapter opts g oa) message send_opts w
        = (Resolves (isError_result True),
           snd (report_error opts e (snd (sendFollowUpMessage oa t w)))))
   \<and> (await (fst (openExternal oa url w)) = Inl e
        \<and> fst (report_error opts e (snd (openExternal oa url w))) = None \<longrightarrow>
      openLink (openai_adapter opts g oa) url w
        = (Resolves (isError_result True),
           snd (report_error opts e (snd (openExternal oa url w)))))
   \<and> (await (fst (uploadFile_oa oa upload w)) = Inl e \<longrightarrow>
      uploadFile (openai_adapter opts g oa) upload w
        = (Rejects e, snd (uploadFile_oa oa upload w)))
   \<and> (await (fst (getFileDownloadUrl_oa oa fileId w)) = Inl e \<longrightarrow>
      getFileDownloadUrl (openai_adapter opts g oa) fileId w
        = (Rejects e, snd (getFileDownloadUrl_oa oa fileId w)))
   \<and> (await (fst (callCompletion_oa oa params w)) = Inl e \<longrightarrow>
      callCompletion (openai_adapter opts g oa) params w
        = (Rejects e, snd (callCompletion_oa oa params w)))
   \<and> (await (fst (share_oa oa params w)) = Inl e \<longrightarrow>
      share (openai_adapter opts g oa) params w = (Rejects e, snd (share_oa oa params w)))
   \<and> (await (fst (requestDisplayMode_oa oa mode w)) = Inl e \<longrightarrow>
      requestDisplayMode (openai_adapter opts g oa) mode w
        = (Rejects e, snd (requestDisplayMode_oa oa mode w)))
   \<and> streamCompletion (openai_adapter opts g oa) params w = streamCompletion_oa oa params w
   \<and> setWidgetState (openai_adapter opts g oa) state w
        = (call_stmt (fst (setWidgetState_oa oa state w)), snd (setWidgetState_oa oa state w))
   \<and> updateWidgetState (openai_adapter opts g oa) state w
        = (call_stmt (fst (updateWidgetState_oa oa state w)),
           snd (updateWidgetState_oa oa state w))
   \<and> requestClose (openai_adapter opts g oa) w
        = (call_stmt (fst (requestClose_oa oa w)), snd (requestClose_oa oa w))
   \<and> notifyIntrinsicHeight (openai_adapter opts g oa) height w
        = (call_stmt (fst (notifyIntrinsicHeight_oa oa height w)),
           snd (notifyIntrinsicHeight_oa oa height w))
   \<and> setOpenInAppUrl (openai_adapter opts g oa) href w
        = (call_stmt (fst (setOpenInAppUrl_oa oa href w)), snd (setOpenInAppUrl_oa oa href w))
   \<and> call_stmt (Throws e :: unit outcome) = Throws e
   \<and> call_stmt (Rejects e :: unit outcome) = Returns ()
   \<and> call_stmt (Returns () :: unit outcome) = Returns ()
   \<and> call_stmt (Resolves () :: unit outcome) = Returns ()"
  using callServerTool_openai_failure [of oa name args w e opts g]
    sendMessage_openai_failure [of message t oa w e opts g send_opts]
    openLink_openai_failure [of oa url w e opts g]
  by (simp add: report_error_def openai_adapter_passthrough openai_adapter_fields
      forward_await_failure forward_await_void_failure forward_stmt_result)

text \<open>The theorem on a host whose every method fails with the same error, under a caller
  whose \<open>onError\<close> records what it is given: three operations record the error, the
  others leave the record empty; and on the same host with a \<open>setWidgetState\<close> that
  returns a rejected promise instead of throwing: the adapter's \<open>setWidgetState\<close> returns
  normally.\<close>

theorem openai_adapter_host_failure_witness:
  "callServerTool (openai_adapter recording_opts (globals_with (failing_openai JNull (ErrorObj ''down'')))
        (failing_openai JNull (ErrorObj ''down''))) ''get-counter'' (JObj []) []
     = (Rejects (ErrorObj ''down''), [ErrorObj ''down''])
   \<and> sendMessage (openai_adapter recording_opts (globals_with (failing_openai JNull (ErrorObj ''down'')))
        (failing_openai JNull (ErrorObj ''down''))) (text_message ''hi'') JUndefined []
     = (Resolves (JObj [(''isError'', JBool True)]), [ErrorObj ''down''])
   \<and> openLink (openai_adapter recording_opts (globals_with (failing_openai JNull (ErrorObj ''down'')))
        (failing_openai JNull (ErrorObj ''down''))) ''https://example.org'' []
     = (Resolves (JObj [(''isError'', JBool True)]), [ErrorObj ''down''])
   \<and> uploadFile (openai_adapter recording_opts (globals_with (failing_openai JNull (ErrorObj ''down'')))
        (failing_openai JNull (ErrorObj ''down''))) JNull []
     = (Rejects (ErrorObj ''down''), [])
   \<and> share (openai_adapter recording_opts (globals_with (failing_openai JNull (ErrorObj ''down'')))
        (failing_openai JNull (ErrorObj ''down''))) JNull []
     = (Rejects (ErrorObj ''down''), [])
   \<and> requestClose (openai_adapter recording_opts (globals_with (failing_openai JNull (ErrorObj ''down'')))
        (failing_openai JNull (ErrorObj ''down''))) []
     = (Throws (ErrorObj ''down''), [])
   \<and> setWidgetState (openai_adapter recording_opts (globals_with (failing_openai JNull (ErrorObj ''down'')))
        (failing_openai JNull (ErrorObj ''down''))) JNull []
     = (Throws (ErrorObj ''down''), [])
   \<and> setWidgetState (openai_adapter recording_opts (globals_with (failing_openai JNull (ErrorObj ''down'')))
        ((failing_openai JNull (ErrorObj ''down''))
           \<lparr> setWidgetState_oa := (\<lambda>state w. (Rejects (ErrorObj ''down''), w)) \<rparr>)) JNull []
     = (Returns (), [])"
  using openai_adapter_host_failure [where opts = recording_opts
      and oa = "failing_openai JNull (ErrorObj ''down'')"
      and g = "globals_with (failing_openai JNull (ErrorObj ''down''))"
      and e = "ErrorObj ''down''" and w = "[]" and name = "''get-counter''" and args = "JObj []"
      and message = "text_message ''hi''" and t = "''hi''" and send_opts = JUndefined
      and url = "''https://example.org''" and upload = JNull and params = JNull
      and state = JNull]
    openai_adapter_host_failure [where opts = recording_opts
      and oa = "(failing_openai JNull (ErrorObj ''down''))
           \<lparr> setWidgetState_oa := (\<lambda>state w. (Rejects (ErrorObj ''down''), w)) \<rparr>"
      and g = "globals_with (failing_openai JNull (ErrorObj ''down''))"
      and e = "ErrorObj ''down''" and w = "[]" and state = JNull]
  by (simp add: failing_openai_def recording_opts_def text_message_def textContent_def
      isError_result_def)

text \<open>C1 as stated fails at \<open>uploadFile\<close>: the host's rejection reaches the caller, but
  the error is not among those handed to \<open>onError\<close>.\<close>

theorem uploadFile_failure_unreported_counterexample:
  "fst (uploadFile (openai_adapter recording_opts
          (globals_with (failing_openai JNull (ErrorObj ''upload failed'')))
          (failing_openai JNull (ErrorObj ''upload failed''))) JNull [])
     = Rejects (ErrorObj ''upload failed'')
   \<and> ErrorObj ''upload failed'' \<notin> set (snd (uploadFile (openai_adapter recording_opts
          (globals_with (failing_openai JNull (ErrorObj ''upload failed'')))
          (failing_openai JNull (ErrorObj ''upload failed''))) JNull []))"
  by (simp add: openai_adapter_passthrough forward_await_def failing_openai_def)

subsection \<open>Widget state\<close>

text \<open>
  C2, as the code has it. On the first host and while the hook is mounted, when the
  globals-changed event is handled and \<^verbatim>\<open>window.openai\<close> has a \<^verbatim>\<open>widgetState\<close>: if that
  value is not \<^verbatim>\<open>null\<close> and is not, by \<^verbatim>\<open>Object.is\<close>, the value the hook last read
  from the host (it is another primitive, or another object, be it one with the same
  contents), the hook writes it into the local widget state; if it is \<^verbatim>\<open>null\<close>, or is
  the value last read (the same primitive, or the same object, be it with new contents),
  the hook does not write the local widget state, which keeps what it held. So a
  \<^verbatim>\<open>null\<close> never clears the local state, and a value the hook has already seen does not
  overwrite a local write made since.
\<close>

theorem set_globals_widget_state:
  assumes "mounted b" and "platformRef b = OpenAI" and "window_openai g = Some oa"
    and "js_in ''widgetState'' (JObj (props oa w))"
  shows "localWidgetState (fst (on_set_globals opts g b w)) =
      (if get_prop (JObj (props oa w)) ''widgetState'' \<noteq> JNull
          \<and> \<not> object_is (openaiWidgetState b)
                \<lparr> contents = get_prop (JObj (props oa w)) ''widgetState'',
                  ident = Some (prop_ident oa w ''widgetState'') \<rparr>
       then get_prop (JObj (props oa w)) ''widgetState''
       else localWidgetState b)"
  using assms by (rule on_set_globals_local)

text \<open>
  Three runs. The hook mounts over widget state \<^verbatim>\<open>"a"\<close>, the caller sets \<^verbatim>\<open>"b"\<close>, the
  host pushes \<^verbatim>\<open>"c"\<close>: the local state is \<^verbatim>\<open>"c"\<close>. The hook mounts over the host's
  object 0 with contents \<^verbatim>\<open>{value: 1}\<close>, the caller sets \<^verbatim>\<open>{value: 5}\<close>, and the host
  installs a new object 1 with contents \<^verbatim>\<open>{value: 1}\<close>: the local state is
  \<^verbatim>\<open>{value: 1}\<close>. The same, but the host changes the contents of object 0 to
  \<^verbatim>\<open>{value: 2}\<close> instead: the local state stays \<^verbatim>\<open>{value: 5}\<close>.
\<close>

theorem set_globals_widget_state_witness:
  "mounted (fst (snd (setWidgetState_hook (JStr ''b'') (mounted_on (quiet_openai (JStr ''a''))) [])))
   \<and> platformRef (fst (snd (setWidgetState_hook (JStr ''b'')
        (mounted_on (quiet_openai (JStr ''a''))) []))) = OpenAI
   \<and> window_openai (globals_with (quiet_openai (JStr ''c''))) = Some (quiet_openai (JStr ''c''))
   \<and> js_in ''widgetState'' (JObj (props (quiet_openai (JStr ''c'')) []))
   \<and> localWidgetState (fst (on_set_globals recording_opts (globals_with (quiet_openai (JStr ''c'')))
        (fst (snd (setWidgetState_hook (JStr ''b'') (mounted_on (quiet_openai (JStr ''a''))) []))) []))
      = JStr ''c''
   \<and> localWidgetState (fst (on_set_globals recording_opts
        (globals_with ((quiet_openai (JObj [(''value'', JNum 1)]))\<lparr> prop_ident := (\<lambda>w key. 1) \<rparr>))
        (fst (snd (setWidgetState_hook (JObj [(''value'', JNum 5)])
           (mounted_on (quiet_openai (JObj [(''value'', JNum 1)]))) []))) []))
      = JObj [(''value'', JNum 1)]
   \<and> localWidgetState (fst (on_set_globals recording_opts
        (globals_with (quiet_openai (JObj [(''value'', JNum 2)])))
        (fst (snd (setWidgetState_hook (JObj [(''value'', JNum 5)])
           (mounted_on (quiet_openai (JObj [(''value'', JNum 1)]))) []))) []))
      = JObj [(''value'', JNum 5)]"
  using set_globals_widget_state [of
      "fst (snd (setWidgetState_hook (JStr ''b'') (mounted_on (quiet_openai (JStr ''a''))) []))"
      "globals_with (quiet_openai (JStr ''c''))" "quiet_openai (JStr ''c'')" "[]" recording_opts]
    set_globals_widget_state [of
      "fst (snd (setWidgetState_hook (JObj [(''value'', JNum 5)])
           (mounted_on (quiet_openai (JObj [(''value'', JNum 1)]))) []))"
      "globals_with ((quiet_openai (JObj [(''value'', JNum 1)]))\<lparr> prop_ident := (\<lambda>w key. 1) \<rparr>)"
      "(quiet_openai (JObj [(''value'', JNum 1)]))\<lparr> prop_ident := (\<lambda>w key. 1) \<rparr>" "[]"
      recording_opts]
    set_globals_widget_state [of
      "fst (snd (setWidgetState_hook (JObj [(''value'', JNum 5)])
           (mounted_on (quiet_openai (JObj [(''value'', JNum 1)]))) []))"
      "globals_with (quiet_openai (JObj [(''value'', JNum 2)]))"
      "quiet_openai (JObj [(''value'', JNum 2)])" "[]" recording_opts]
  by (simp add: setWidgetState_hook_state mounted_on_quiet_fields mock_props_def object_is_def)

text \<open>C2 as stated fails when the event delivers the value the hook has already read:
  mounted over \<^verbatim>\<open>"a"\<close>, the caller sets \<^verbatim>\<open>"b"\<close>, the event fires with the widget state
  of the host still \<^verbatim>\<open>"a"\<close>; the local state is not the non-null value pushed.\<close>

theorem set_globals_same_value_counterexample:
  "localWidgetState (fst (on_set_globals recording_opts (globals_with (quiet_openai (JStr ''a'')))
        (fst (snd (setWidgetState_hook (JStr ''b'') (mounted_on (quiet_openai (JStr ''a''))) []))) []))
     \<noteq> get_prop (JObj (props (quiet_openai (JStr ''a'')) [])) ''widgetState''
   \<and> get_prop (JObj (props (quiet_openai (JStr ''a'')) [])) ''widgetState'' \<noteq> JNull"
proof -
  let ?b = "fst (snd (setWidgetState_hook (JStr ''b'') (mounted_on (quiet_openai (JStr ''a''))) []))"
  have "localWidgetState (fst (on_set_globals recording_opts
          (globals_with (quiet_openai (JStr ''a''))) ?b [])) = JStr ''b''"
    by (subst on_set_globals_local [where oa = "quiet_openai (JStr ''a'')"])
       (simp_all add: setWidgetState_hook_state mounted_on_quiet_fields mock_props_def
          object_is_def)
  then show ?thesis by (simp add: mock_props_def)
qed

text \<open>
  C5, as the code has it. \<open>setWidgetState\<close> and \<open>updateWidgetState\<close> of the hook write
  the local state on every platform and whatever the host does. On the first host with a
  constructed adapter they call the host's native \<open>setWidgetState\<close> or
  \<open>updateWidgetState\<close> once; a synchronous throw of that host method reaches the caller,
  while a promise it may return is dropped, so a rejection does not. On any other
  platform, or with no adapter, the caller gets a normal return and the world is
  untouched: no host call is made.
\<close>

theorem widget_state_setters:
  "localWidgetState (fst (snd (setWidgetState_hook state b w))) = state
   \<and> localWidgetState (fst (snd (updateWidgetState_hook state b w)))
       = spread2 (localWidgetState b) state
   \<and> (platformRef b = OpenAI \<and> unifiedApp b = Some (openai_adapter opts g oa) \<longrightarrow>
        fst (setWidgetState_hook state b w) = call_stmt (fst (setWidgetState_oa oa state w))
      \<and> snd (snd (setWidgetState_hook state b w)) = snd (setWidgetState_oa oa state w)
      \<and> fst (updateWidgetState_hook state b w)
          = call_stmt (fst (updateWidgetState_oa oa state w))
      \<and> snd (snd (updateWidgetState_hook state b w)) = snd (updateWidgetState_oa oa state w))
   \<and> (platformRef b \<noteq> OpenAI \<or> unifiedApp b = None \<longrightarrow>
        fst (setWidgetState_hook state b w) = Returns ()
      \<and> snd (snd (setWidgetState_hook state b w)) = w
      \<and> fst (updateWidgetState_hook state b w) = Returns ()
      \<and> snd (snd (updateWidgetState_hook state b w)) = w)
   \<and> call_stmt (Throws e :: unit outcome) = Throws e
   \<and> call_stmt (Rejects e :: unit outcome) = Returns ()"
  using setWidgetState_hook_forward [of b opts g oa state w]
    setWidgetState_hook_local_only [of b state w]
  by (simp add: setWidgetState_hook_state updateWidgetState_hook_state)

theorem widget_state_setters_witness:
  "fst (setWidgetState_hook (JObj [(''value'', JNum 1)])
          (mounted_on (failing_openai JNull TypeError)) []) = Throws TypeError
   \<and> localWidgetState (fst (snd (setWidgetState_hook (JObj [(''value'', JNum 1)])
        (mounted_on (failing_openai JNull TypeError)) []))) = JObj [(''value'', JNum 1)]
   \<and> fst (setWidgetState_hook (JObj [(''value'', JNum 1)])
          (mounted_mcp (mock_app (Resolves ()))) []) = Returns ()
   \<and> snd (snd (setWidgetState_hook (JObj [(''value'', JNum 1)])
          (mounted_mcp (mock_app (Resolves ()))) [])) = []"
  using widget_state_setters [of "JObj [(''value'', JNum 1)]"
      "mounted_on (failing_openai JNull TypeError)" "[]"
      "hook_options recording_opts (globals_with (failing_openai JNull TypeError)) True"
      "globals_with (failing_openai JNull TypeError)" "failing_openai JNull TypeError"]
    widget_state_setters [of "JObj [(''value'', JNum 1)]" "mounted_mcp (mock_app (Resolves ()))" "[]"]
  by (simp add: mounted_on_failing_fields mounted_mcp_fields)

text \<open>C5 as stated fails on a first host whose \<open>setWidgetState\<close> throws (a mock without
  that method, say): the caller of the hook's \<open>setWidgetState\<close> gets the \<open>TypeError\<close>.\<close>

theorem setWidgetState_host_throw_counterexample:
  "fst (setWidgetState_hook (JObj [(''value'', JNum 1)])
          (mounted_on (failing_openai JNull TypeError)) []) = Throws TypeError"
  using setWidgetState_hook_forward(1) [of "mounted_on (failing_openai JNull TypeError)"
      "hook_options recording_opts (globals_with (failing_openai JNull TypeError)) True"
      "globals_with (failing_openai JNull TypeError)" "failing_openai JNull TypeError"
      "JObj [(''value'', JNum 1)]" "[]"]
  by (simp add: mounted_on_failing_fields)

text \<open>
  C8. When the local widget state is an object and \<open>updateWidgetState\<close> is called with an
  object, the new local widget state is an object whose properties are those of the update
  laid over those of the previous state: a key of the update has the update's value, every
  other key of the previous state keeps its value, and there are no other keys. This holds
  on every platform, with or without an adapter, and whatever the host call does. (An
  object has each key once.)
\<close>

theorem updateWidgetState_shallow_merge:
  assumes "localWidgetState b = JObj prev" and "distinct (map fst prev)"
    and "distinct (map fst upd)"
  shows "\<exists>fs. localWidgetState (fst (snd (updateWidgetState_hook (JObj upd) b w))) = JObj fs
            \<and> map_of fs = map_of prev ++ map_of upd
            \<and> distinct (map fst fs)
            \<and> set (map fst fs) = set (map fst prev) \<union> set (map fst upd)"
  using assms spread2_own_props [of "JObj prev" "JObj upd"]
  by (simp add: updateWidgetState_hook_state)

theorem updateWidgetState_shallow_merge_witness:
  "localWidgetState (mounted_on (failing_openai (JObj [(''a'', JNum 1), (''b'', JNum 2)]) TypeError))
      = JObj [(''a'', JNum 1), (''b'', JNum 2)]
   \<and> distinct (map fst [(''a'', JNum 1), (''b'', JNum 2)])
   \<and> distinct (map fst [(''k'', JNum 3)])
   \<and> (\<exists>fs. localWidgetState (fst (snd (updateWidgetState_hook (JObj [(''k'', JNum 3)])
          (mounted_on (failing_openai (JObj [(''a'', JNum 1), (''b'', JNum 2)]) TypeError)) [])))
          = JObj fs
        \<and> map_of fs = map_of [(''a'', JNum 1), (''b'', JNum 2)] ++ map_of [(''k'', JNum 3)]
        \<and> distinct (map fst fs)
        \<and> set (map fst fs) = {''a'', ''b'', ''k''})"
  using updateWidgetState_shallow_merge [of
      "mounted_on (failing_openai (JObj [(''a'', JNum 1), (''b'', JNum 2)]) TypeError)"
      "[(''a'', JNum 1), (''b'', JNum 2)]" "[(''k'', JNum 3)]" "[]"]
  by (simp add: mounted_on_failing_fields insert_commute)

subsection \<open>Host context and the handshake on the second host\<close>

text \<open>
  C9. On the second host, a pushed host-context update sets the hook's host context to
  the update's properties laid over those of the previous context (none, when there was
  no context yet): a key of the update has the update's value, every other key keeps its
  previous value, and there are no other keys. This is for the hook while it is mounted,
  with a caller whose \<open>onHostContextChanged\<close>, if supplied, returns normally when given the
  merged context. (An object has each key once.)
\<close>

theorem host_context_push_merge:
  assumes "mounted b"
    and "fst (call_if_supplied (onHostContextChanged opts)
                (spread2 (hostContext b) params) w) = None"
    and "distinct (map fst (own_props (hostContext b)))"
    and "distinct (map fst (own_props params))"
  shows "\<exists>fs. hostContext (fst (snd (onhostcontextchanged opts params b w))) = JObj fs
            \<and> map_of fs = map_of (own_props (hostContext b)) ++ map_of (own_props params)
            \<and> distinct (map fst fs)
            \<and> set (map fst fs) = set (map fst (own_props (hostContext b)))
                                     \<union> set (map fst (own_props params))"
proof -
  have "hostContext (fst (snd (onhostcontextchanged opts params b w)))
      = spread2 (hostContext b) params"
    using assms(1,2)
    by (auto simp add: onhostcontextchanged_def Let_def split: prod.splits option.splits)
  then show ?thesis
    using spread2_own_props [OF assms(3,4)] by simp
qed

text \<open>The theorem on a hook mounted over a connected client, with a caller whose
  \<open>onHostContextChanged\<close> records nothing and returns: a pushed theme replaces the theme
  and leaves the locale.\<close>

theorem host_context_push_merge_witness:
  "mounted ((mounted_mcp (mock_app (Resolves ())))
         \<lparr> hostContext := JObj [(''theme'', JStr ''light''), (''locale'', JStr ''en-US'')] \<rparr>)
   \<and> fst (call_if_supplied
        (onHostContextChanged (recording_opts\<lparr> onHostContextChanged := Some (\<lambda>ctx w. (None, w)) \<rparr>))
        (spread2 (JObj [(''theme'', JStr ''light''), (''locale'', JStr ''en-US'')])
           (JObj [(''theme'', JStr ''dark'')])) []) = None
   \<and> distinct (map fst (own_props (JObj [(''theme'', JStr ''light''), (''locale'', JStr ''en-US'')])))
   \<and> distinct (map fst (own_props (JObj [(''theme'', JStr ''dark'')])))
   \<and> hostContext (fst (snd (onhostcontextchanged
        (recording_opts\<lparr> onHostContextChanged := Some (\<lambda>ctx w. (None, w)) \<rparr>)
        (JObj [(''theme'', JStr ''dark'')])
        ((mounted_mcp (mock_app (Resolves ())))
           \<lparr> hostContext := JObj [(''theme'', JStr ''light''), (''locale'', JStr ''en-US'')] \<rparr>) [])))
      = JObj [(''theme'', JStr ''dark''), (''locale'', JStr ''en-US'')]"
  using host_context_push_merge [of
      "(mounted_mcp (mock_app (Resolves ())))
         \<lparr> hostContext := JObj [(''theme'', JStr ''light''), (''locale'', JStr ''en-US'')] \<rparr>"
      "recording_opts\<lparr> onHostContextChanged := Some (\<lambda>ctx w. (None, w)) \<rparr>"
      "JObj [(''theme'', JStr ''dark'')]" "[]"]
  by (simp add: mounted_mcp_fields spread2_def call_if_supplied_def onhostcontextchanged_def)

text \<open>
  C6, as the code has it. The platform the hook returns after mounting is \<open>MCP\<close> exactly
  when detection did not find the first host and the handshake succeeded. When detection
  did not find the first host and the handshake fails with \<open>e\<close>, the hook's error is \<open>e\<close>
  if \<open>e\<close> is an \<^verbatim>\<open>Error\<close> instance and a new \<^verbatim>\<open>Error("Failed to connect")\<close> otherwise;
  \<open>isConnected\<close> is false, there is no adapter, the platform returned is \<open>Unknown\<close>, and
  the world is the one the single handshake left, with the error logged to the console:
  nothing is tried again.
\<close>

theorem handshake_outcome:
  "(finalPlatform (fst (useUnifiedApp_mount opts g new_App w)) = MCP
      \<longleftrightarrow> detectPlatform g \<noteq> OpenAI \<and> (\<exists>app w1. handshake new_App w = (Inr app, w1)))
   \<and> (detectPlatform g \<noteq> OpenAI \<and> handshake new_App w = (Inl e, w1) \<longrightarrow>
        error (fst (useUnifiedApp_mount opts g new_App w))
          = Some (if instanceof_Error e then e else ErrorObj ''Failed to connect'')
      \<and> \<not> isConnected (fst (useUnifiedApp_mount opts g new_App w))
      \<and> unifiedApp (fst (useUnifiedApp_mount opts g new_App w)) = None
      \<and> finalPlatform (fst (useUnifiedApp_mount opts g new_App w)) = Unknown
      \<and> snd (useUnifiedApp_mount opts g new_App w)
          = console g ''error'' (log_prefix opts) (LogError e) w1)"
proof -
  let ?b = "read_globals g w (first_render g)"
  let ?M = "useUnifiedApp_mount opts g new_App w"
  have pr: "platformRef (fst ?M) = detectPlatform g"
    by (simp add: mount_unfold)
  have iff: "finalPlatform (fst ?M) = MCP
      \<longleftrightarrow> detectPlatform g \<noteq> OpenAI \<and> (\<exists>app w1. handshake new_App w = (Inr app, w1))"
  proof (cases "detectPlatform g = OpenAI")
    case True
    then show ?thesis using pr by (simp add: finalPlatform_def)
  next
    case False
    obtain r w' where h: "handshake new_App w = (r, w')" by (cases "handshake new_App w")
    show ?thesis
    proof (cases r)
      case (Inl err)
      then show ?thesis
        using False h mount_handshake_failed(4) [of g new_App w err w' opts] by simp
    next
      case (Inr app)
      then show ?thesis
        using False h initialize_handshake_ok [of ?b new_App w app w' opts g]
        by (simp add: mount_unfold finalPlatform_def)
    qed
  qed
  show ?thesis using iff mount_handshake_failed [of g new_App w e w1 opts] by blast
qed

theorem handshake_outcome_witness:
  "detectPlatform (globals_without :: thrown list globals) \<noteq> OpenAI
   \<and> handshake (\<lambda>w. (Inr (mock_app (Rejects (ErrorObj ''refused''))), w)) []
       = (Inl (ErrorObj ''refused''), [])
   \<and> error (mounted_mcp (mock_app (Rejects (ErrorObj ''refused'')))) = Some (ErrorObj ''refused'')
   \<and> \<not> isConnected (mounted_mcp (mock_app (Rejects (ErrorObj ''refused''))))
   \<and> finalPlatform (mounted_mcp (mock_app (Rejects (ErrorObj ''refused'')))) = Unknown
   \<and> finalPlatform (mounted_mcp (mock_app (Resolves ()))) = MCP"
  using handshake_outcome [of recording_opts globals_without
      "\<lambda>w. (Inr (mock_app (Rejects (ErrorObj ''refused''))), w)" "[]" "ErrorObj ''refused''" "[]"]
    handshake_outcome [of recording_opts globals_without
      "\<lambda>w. (Inr (mock_app (Resolves ())), w)" "[]"]
  by (simp add: mounted_mcp_def handshake_mock)

text \<open>C6 as stated fails when \<open>connect\<close> rejects with a value that is not an
  \<^verbatim>\<open>Error\<close>: the hook's error is not the rejected value.\<close>

theorem handshake_non_error_counterexample:
  "error (mounted_mcp (mock_app (Rejects (NonError (JStr ''boom'')))))
     \<noteq> Some (NonError (JStr ''boom''))"
  using mount_handshake_failed(1) [of globals_without
      "\<lambda>w. (Inr (mock_app (Rejects (NonError (JStr ''boom'')))), w)" "[]"
      "NonError (JStr ''boom'')" "[]" recording_opts]
  by (simp add: mounted_mcp_def handshake_mock)

end
